theory Spec2Isabelle
  imports Main "HOL-Library.Word"
begin

section \<open>JavaScript values\<close>

text \<open>
  The SDK is TypeScript: at run time every authority reply is an unchecked value that
  \<^verbatim>\<open>fetchResult.json()\<close> produced, and every payload is an object literal. Both are
  modelled by one datatype of JavaScript values. An object is the list of its own
  properties in insertion order (keys are distinct, as \<^verbatim>\<open>JSON.parse\<close> and object literals
  make them, and none is an array index, which JavaScript would enumerate first).
  \<open>JUndefined\<close> is what reading a missing property yields; no parsed reply contains it.
  Strings are \<open>char\<close> lists read as UTF-8 bytes. \<open>JNum\<close> holds the numbers
  that are safe integers (HTTP status codes, thresholds, counts, and the chain identifier
  that a service object keeps), for which \<^verbatim>\<open>String\<close>, \<^verbatim>\<open>JSON.stringify\<close> and
  \<^verbatim>\<open>parseInt(b.toString())\<close> are exact; fractional and larger numbers in a reply or a
  payload are outside this model. No value of a reply or payload is a function: a member
  of a parsed reply is never callable.
\<close>

datatype jsval =
    JUndefined
  | JNull
  | JBool bool
  | JNum int
  | JBigInt int
  | JStr string
  | JArr "jsval list"
  | JObj "(string \<times> jsval) list"

datatype js_type = T_undefined | T_object | T_boolean | T_number | T_bigint | T_string

fun typeof :: "jsval \<Rightarrow> js_type" where
  "typeof JUndefined = T_undefined"
| "typeof JNull = T_object"
| "typeof (JBool b) = T_boolean"
| "typeof (JNum n) = T_number"
| "typeof (JBigInt n) = T_bigint"
| "typeof (JStr s) = T_string"
| "typeof (JArr xs) = T_object"
| "typeof (JObj kvs) = T_object"

subsection \<open>Printing integers\<close>

definition digit_char :: "nat \<Rightarrow> char" where
  "digit_char d = ''0123456789abcdef'' ! d"

definition upper_digit_char :: "nat \<Rightarrow> char" where
  "upper_digit_char d = ''0123456789ABCDEF'' ! d"

function dec_digits :: "nat \<Rightarrow> string" where
  "dec_digits n = (if n < 10 then [digit_char n] else dec_digits (n div 10) @ [digit_char (n mod 10)])"
  by pat_completeness auto
termination
  by (relation "measure id") auto

function hex_digits :: "nat \<Rightarrow> string" where
  "hex_digits n = (if n < 16 then [digit_char n] else hex_digits (n div 16) @ [digit_char (n mod 16)])"
  by pat_completeness auto
termination
  by (relation "measure id") auto

declare dec_digits.simps [simp del] hex_digits.simps [simp del]

definition int_toString :: "int \<Rightarrow> string" where
  \<comment> \<open>\<^verbatim>\<open>String(n)\<close> of an integer number or of a bigint.\<close>
  "int_toString n = (if n < 0 then ''-'' @ dec_digits (nat (- n)) else dec_digits (nat n))"

definition bigint_toString16 :: "int \<Rightarrow> string" where
  \<comment> \<open>\<^verbatim>\<open>value.toString(16)\<close> of a bigint: the sign, then lower-case digits.\<close>
  "bigint_toString16 n = (if n < 0 then ''-'' @ hex_digits (nat (- n)) else hex_digits (nat n))"

subsection \<open>Conversion to string\<close>

fun join :: "string \<Rightarrow> string list \<Rightarrow> string" where
  "join sep [] = []"
| "join sep [s] = s"
| "join sep (s # t # ss) = s @ sep @ join sep (t # ss)"

text \<open>
  \<^verbatim>\<open>String(v)\<close>, and likewise every implicit conversion of \<open>v\<close> to a primitive
  (\<^verbatim>\<open>v == "..."\<close>, \<^verbatim>\<open>BigInt(v)\<close>, \<^verbatim>\<open>new Error(v)\<close>, \<^verbatim>\<open>new URLSearchParams({k: v})\<close>).
  The result \<open>None\<close> is the TypeError \<^verbatim>\<open>Cannot convert object to primitive value\<close>.
  An object is converted by its \<^verbatim>\<open>toString\<close> and \<^verbatim>\<open>valueOf\<close> members: an object with an
  own member \<^verbatim>\<open>toString\<close> hides \<^verbatim>\<open>Object.prototype.toString\<close> behind a value that is not
  callable, \<^verbatim>\<open>valueOf\<close> (own and not callable, or inherited and returning the object
  itself) yields no primitive either, and the conversion throws; every other object
  prints as \<^verbatim>\<open>[object Object]\<close>. An array is joined with commas, each element converted in
  turn (\<^verbatim>\<open>null\<close> and \<^verbatim>\<open>undefined\<close> as the empty string), so it throws when an element does.
\<close>

fun js_String :: "jsval \<Rightarrow> string option"
  and js_String_elems :: "jsval list \<Rightarrow> string list option" where
  "js_String JUndefined = Some ''undefined''"
| "js_String JNull = Some ''null''"
| "js_String (JBool b) = Some (if b then ''true'' else ''false'')"
| "js_String (JNum n) = Some (int_toString n)"
| "js_String (JBigInt n) = Some (int_toString n)"
| "js_String (JStr s) = Some s"
| "js_String (JArr xs) = map_option (join '','') (js_String_elems xs)"
| "js_String (JObj kvs) =
     (if ''toString'' \<in> set (map fst kvs) then None else Some ''[object Object]'')"
| "js_String_elems [] = Some []"
| "js_String_elems (x # xs) =
     (case (if x = JUndefined \<or> x = JNull then Some [] else js_String x) of
        None \<Rightarrow> None
      | Some s \<Rightarrow> map_option (Cons s) (js_String_elems xs))"

subsection \<open>Conversion of a bigint to a number\<close>

text \<open>
  \<^verbatim>\<open>Number(b)\<close> for a bigint \<open>b\<close> is the double nearest to \<open>b\<close>, a tie going to the even
  significand of 53 bits, and an infinity from \<open>2^1024 - 2^970\<close> on. Every such double is
  an integer or an infinity.
\<close>

datatype js_number = Integral int | PlusInfinity | MinusInfinity

function bit_length :: "nat \<Rightarrow> nat" where
  "bit_length n = (if n = 0 then 0 else Suc (bit_length (n div 2)))"
  by pat_completeness auto
termination
  by (relation "measure id") auto

declare bit_length.simps [simp del]

definition nearest_double :: "nat \<Rightarrow> nat" where
  \<comment> \<open>the magnitude rounded to 53 significant bits; \<open>2^1024\<close> stands for overflow\<close>
  "nearest_double m =
     (if bit_length m \<le> 53 then m
      else
        (let e = bit_length m - 53;
             q = m div 2 ^ e;
             r = m mod 2 ^ e;
             half = 2 ^ (e - 1)
         in (if half < r \<or> (r = half \<and> odd q) then q + 1 else q) * 2 ^ e))"

definition js_Number :: "int \<Rightarrow> js_number" where
  \<comment> \<open>\<^verbatim>\<open>Number(b)\<close> of a bigint\<close>
  "js_Number b =
     (let r = nearest_double (nat \<bar>b\<bar>) in
      if 2 ^ 1024 \<le> r then (if b < 0 then MinusInfinity else PlusInfinity)
      else Integral (if b < 0 then - int r else int r))"

subsection \<open>\<^verbatim>\<open>JSON.stringify\<close>\<close>

definition hex2 :: "nat \<Rightarrow> string" where
  "hex2 n = [digit_char (n div 16), digit_char (n mod 16)]"

definition quote_char :: "char \<Rightarrow> string" where
  "quote_char c =
     (if c = CHR 0x22 then [CHR 0x5C, CHR 0x22]
      else if c = CHR 0x5C then [CHR 0x5C, CHR 0x5C]
      else if c = CHR 0x08 then [CHR 0x5C, CHR ''b'']
      else if c = CHR 0x0C then [CHR 0x5C, CHR ''f'']
      else if c = CHR 0x0A then [CHR 0x5C, CHR ''n'']
      else if c = CHR 0x0D then [CHR 0x5C, CHR ''r'']
      else if c = CHR 0x09 then [CHR 0x5C, CHR ''t'']
      else if of_char c < (32 :: nat) then [CHR 0x5C, CHR ''u'', CHR ''0'', CHR ''0''] @ hex2 (of_char c)
      else [c])"

definition quote :: "string \<Rightarrow> string" where
  "quote s = [CHR 0x22] @ concat (map quote_char s) @ [CHR 0x22]"

text \<open>
  \<^verbatim>\<open>JSON.stringify(v, replacer)\<close> with the replacer of \<^verbatim>\<open>sendHttpRequest\<close>,
  \<^verbatim>\<open>(key, value) => typeof value === "bigint" ? "0x" + value.toString(16) : value\<close>.
  The result of serialising one property is \<open>None\<close> for \<^verbatim>\<open>undefined\<close>, which an object
  omits and an array prints as \<^verbatim>\<open>null\<close>.
\<close>

fun SerializeJSONProperty :: "jsval \<Rightarrow> string option"
  and SerializeJSONArray :: "jsval list \<Rightarrow> string list"
  and SerializeJSONObject :: "(string \<times> jsval) list \<Rightarrow> string list" where
  "SerializeJSONProperty JUndefined = None"
| "SerializeJSONProperty JNull = Some ''null''"
| "SerializeJSONProperty (JBool b) = Some (if b then ''true'' else ''false'')"
| "SerializeJSONProperty (JNum n) = Some (int_toString n)"
| "SerializeJSONProperty (JBigInt n) = Some (quote (''0x'' @ bigint_toString16 n))"
| "SerializeJSONProperty (JStr s) = Some (quote s)"
| "SerializeJSONProperty (JArr xs) = Some (''['' @ join '','' (SerializeJSONArray xs) @ '']'')"
| "SerializeJSONProperty (JObj kvs) = Some (''{'' @ join '','' (SerializeJSONObject kvs) @ ''}'')"
| "SerializeJSONArray [] = []"
| "SerializeJSONArray (x # xs) =
     (case SerializeJSONProperty x of None \<Rightarrow> ''null'' | Some s \<Rightarrow> s) # SerializeJSONArray xs"
| "SerializeJSONObject [] = []"
| "SerializeJSONObject ((k, v) # kvs) =
     (case SerializeJSONProperty v of
        None \<Rightarrow> SerializeJSONObject kvs
      | Some s \<Rightarrow> (quote k @ '':'' @ s) # SerializeJSONObject kvs)"

fun has_bigint :: "jsval \<Rightarrow> bool"
  and has_bigint_elems :: "jsval list \<Rightarrow> bool"
  and has_bigint_props :: "(string \<times> jsval) list \<Rightarrow> bool" where
  "has_bigint (JBigInt n) = True"
| "has_bigint (JArr xs) = has_bigint_elems xs"
| "has_bigint (JObj kvs) = has_bigint_props kvs"
| "has_bigint v = False"
| "has_bigint_elems [] = False"
| "has_bigint_elems (x # xs) = (has_bigint x \<or> has_bigint_elems xs)"
| "has_bigint_props [] = False"
| "has_bigint_props ((k, v) # kvs) = (has_bigint v \<or> has_bigint_props kvs)"

definition JSON_stringify_hex :: "jsval \<Rightarrow> string option" where
  \<comment> \<open>\<^verbatim>\<open>JSON.stringify(v, replacer)\<close>; \<open>None\<close> is \<^verbatim>\<open>undefined\<close>.\<close>
  "JSON_stringify_hex v = SerializeJSONProperty v"

definition JSON_stringify :: "jsval \<Rightarrow> string option option" where
  \<comment> \<open>\<^verbatim>\<open>JSON.stringify(v)\<close> without a replacer: the outer \<open>None\<close> is the TypeError
      that a bigint anywhere in \<open>v\<close> raises, the inner \<open>None\<close> is \<^verbatim>\<open>undefined\<close>.\<close>
  "JSON_stringify v = (if has_bigint v then None else Some (SerializeJSONProperty v))"

section \<open>Errors (errors.ts)\<close>

datatype BasicErrorCode =
    UNKNOWN_ERROR
  | TIMEOUT
  | SIWE_ERROR
  | BAD_DATA
  | HTTP_BAD_REQUEST
  | HTTP_UNAUTHORIZED
  | HTTP_FORBIDDEN
  | HTTP_NOT_FOUND
  | HTTP_CONFLICT
  | HTTP_TOO_MANY_REQUESTS
  | HTTP_INTERNAL_ERROR
  | HTTP_BAD_GATEWAY
  | HTTP_SERVICE_UNAVAILABLE
  | HTTP_GATEWAY_TIMEOUT

definition HttpErrorCodeDict :: "(string \<times> BasicErrorCode) list" where
  "HttpErrorCodeDict =
     [(''400'', HTTP_BAD_REQUEST),
      (''401'', HTTP_UNAUTHORIZED),
      (''403'', HTTP_FORBIDDEN),
      (''404'', HTTP_NOT_FOUND),
      (''409'', HTTP_CONFLICT),
      (''429'', HTTP_TOO_MANY_REQUESTS),
      (''500'', HTTP_INTERNAL_ERROR),
      (''502'', HTTP_BAD_GATEWAY),
      (''503'', HTTP_SERVICE_UNAVAILABLE),
      (''504'', HTTP_GATEWAY_TIMEOUT)]"

text \<open>
  \<open>HttpErrorCodeDict\<close> is an object literal, so its prototype is \<^verbatim>\<open>Object.prototype\<close>.
  The operator \<^verbatim>\<open>in\<close> and a property read both follow the prototype chain: the names
  below are found in every plain object, and reading one of them yields a member of
  \<^verbatim>\<open>Object.prototype\<close>, which is not an error code.
\<close>

definition Object_prototype_names :: "string list" where
  "Object_prototype_names =
     [''constructor'', ''hasOwnProperty'', ''isPrototypeOf'', ''propertyIsEnumerable'',
      ''toLocaleString'', ''toString'', ''valueOf'', ''__proto__'',
      ''__defineGetter__'', ''__defineSetter__'', ''__lookupGetter__'', ''__lookupSetter__'']"

definition Array_prototype_names :: "string list" where
  "Array_prototype_names =
     [''at'', ''concat'', ''copyWithin'', ''entries'', ''every'', ''fill'', ''filter'', ''find'',
      ''findIndex'', ''findLast'', ''findLastIndex'', ''flat'', ''flatMap'', ''forEach'',
      ''includes'', ''indexOf'', ''join'', ''keys'', ''lastIndexOf'', ''map'', ''pop'', ''push'',
      ''reduce'', ''reduceRight'', ''reverse'', ''shift'', ''slice'', ''some'', ''sort'',
      ''splice'', ''toReversed'', ''toSorted'', ''toSpliced'', ''unshift'', ''values'', ''with'']"

datatype code_slot =
    Code BasicErrorCode
  | NotACode string  \<comment> \<open>the member of \<^verbatim>\<open>Object.prototype\<close> of that name\<close>

definition in_HttpErrorCodeDict :: "string \<Rightarrow> bool" where
  \<comment> \<open>\<^verbatim>\<open>codeString in HttpErrorCodeDict\<close>\<close>
  "in_HttpErrorCodeDict k =
     (k \<in> set (map fst HttpErrorCodeDict) \<or> k \<in> set Object_prototype_names)"

definition HttpErrorCodeDict_at :: "string \<Rightarrow> code_slot" where
  \<comment> \<open>\<^verbatim>\<open>HttpErrorCodeDict[codeString]\<close>, read where \<open>in_HttpErrorCodeDict\<close> holds\<close>
  "HttpErrorCodeDict_at k =
     (case map_of HttpErrorCodeDict k of Some c \<Rightarrow> Code c | None \<Rightarrow> NotACode k)"

record js_error =
  err_name :: string
  err_message :: string

text \<open>
  \<^verbatim>\<open>class SafeRecoveryServiceSdkError extends Error\<close>. The constructor hands \<open>message\<close>
  to \<^verbatim>\<open>Error\<close>, which keeps the empty message for \<^verbatim>\<open>undefined\<close> and converts any
  other value to a string; TypeScript declares a string, and \<open>sendHttpRequest\<close> passes the
  unchecked \<^verbatim>\<open>message\<close> of a reply. When that conversion throws, the \<^verbatim>\<open>throw new\<close>
  statement throws the TypeError of the conversion and no \<open>SafeRecoveryServiceSdkError\<close>.
\<close>

record SafeRecoveryServiceSdkError =
  code :: code_slot
  message :: string
  cause :: "js_error option"
  errno :: jsval
  error_context :: jsval

definition Error_message :: "jsval \<Rightarrow> string option" where
  \<comment> \<open>the message that \<^verbatim>\<open>new Error(m)\<close> stores; \<open>None\<close> when the conversion throws\<close>
  "Error_message m = (if m = JUndefined then Some [] else js_String m)"

definition ensureError :: "jsval \<Rightarrow> js_error" where
  \<comment> \<open>The branch for a value that is not an \<^verbatim>\<open>Error\<close>; an \<^verbatim>\<open>Error\<close> is returned as it is.\<close>
  "ensureError v =
     \<lparr>err_name = ''Error'',
      err_message = ''This value was thrown as is, not through an Error: '' @
        (case JSON_stringify v of
           None \<Rightarrow> ''[Unable to stringify the thrown value]''
         | Some None \<Rightarrow> ''undefined''
         | Some (Some s) \<Rightarrow> s)\<rparr>"

text \<open>
  What an operation can raise: the SDK's typed error, or a native exception
  (\<^verbatim>\<open>TypeError\<close>, \<^verbatim>\<open>SyntaxError\<close>, ...) that no \<^verbatim>\<open>try\<close> block of the SDK catches.
\<close>

datatype failure =
    SdkError SafeRecoveryServiceSdkError
  | NativeError js_error

definition TypeError :: "string \<Rightarrow> failure" where
  "TypeError m = NativeError \<lparr>err_name = ''TypeError'', err_message = m\<rparr>"

definition new_SafeRecoveryServiceSdkError ::
    "code_slot \<Rightarrow> jsval \<Rightarrow> js_error option \<Rightarrow> jsval \<Rightarrow> jsval \<Rightarrow> failure" where
  \<comment> \<open>what \<^verbatim>\<open>throw new SafeRecoveryServiceSdkError(c, m, {cause, errno, context})\<close> throws\<close>
  "new_SafeRecoveryServiceSdkError c m cs en ctx =
     (case Error_message m of
        None \<Rightarrow> TypeError ''Cannot convert object to primitive value''
      | Some m' \<Rightarrow>
          SdkError \<lparr>code = c, message = m', cause = cs, errno = en, error_context = ctx\<rparr>)"

section \<open>Property access on replies\<close>

definition array_own_keys :: "jsval list \<Rightarrow> string list" where
  "array_own_keys xs = map (\<lambda>i. int_toString (int i)) [0 ..< length xs] @ [''length'']"

fun js_in :: "string \<Rightarrow> jsval \<Rightarrow> bool option" where
  \<comment> \<open>\<^verbatim>\<open>k in v\<close>; \<open>None\<close> is the TypeError raised when \<open>v\<close> is not an object.\<close>
  "js_in k (JObj kvs) = Some (k \<in> set (map fst kvs) \<or> k \<in> set Object_prototype_names)"
| "js_in k (JArr xs) =
     Some (k \<in> set (array_own_keys xs) \<or> k \<in> set Array_prototype_names
           \<or> k \<in> set Object_prototype_names)"
| "js_in k v = None"

fun js_get :: "jsval \<Rightarrow> string \<Rightarrow> jsval" where
  \<comment> \<open>\<^verbatim>\<open>v[k]\<close> for \<open>v\<close> other than \<^verbatim>\<open>null\<close> and \<^verbatim>\<open>undefined\<close>, and for the field names
      the SDK reads, none of which a prototype defines.\<close>
  "js_get (JObj kvs) k = (case map_of kvs k of Some v \<Rightarrow> v | None \<Rightarrow> JUndefined)"
| "js_get v k = JUndefined"

fun js_set :: "(string \<times> jsval) list \<Rightarrow> string \<Rightarrow> jsval \<Rightarrow> (string \<times> jsval) list" where
  \<comment> \<open>\<^verbatim>\<open>o[k] = v\<close> on an object: an existing property keeps its place.\<close>
  "js_set [] k v = [(k, v)]"
| "js_set ((k', v') # kvs) k v = (if k' = k then (k, v) # kvs else (k', v') # js_set kvs k v)"

definition nullish :: "jsval \<Rightarrow> bool" where
  "nullish v = (v = JUndefined \<or> v = JNull)"

section \<open>Transport (utils.ts)\<close>

datatype http_method = post | get

record RequestInit =
  rq_method :: string
  rq_headers :: "(string \<times> string) list"
  rq_body :: "string option"
  rq_redirect :: string

definition RequestInit_js :: "RequestInit \<Rightarrow> jsval" where
  "RequestInit_js r =
     JObj ([(''method'', JStr (rq_method r)),
            (''headers'', JObj (map (\<lambda>(k, v). (k, JStr v)) (rq_headers r)))]
           @ (case rq_body r of None \<Rightarrow> [] | Some b \<Rightarrow> [(''body'', JStr b)])
           @ [(''redirect'', JStr (rq_redirect r))])"

definition is_alnum :: "char \<Rightarrow> bool" where
  "is_alnum c = (let n = (of_char c :: nat) in
     (48 \<le> n \<and> n \<le> 57) \<or> (65 \<le> n \<and> n \<le> 90) \<or> (97 \<le> n \<and> n \<le> 122))"

definition urlencode_byte :: "char \<Rightarrow> string" where
  "urlencode_byte c =
     (if c = CHR '' '' then ''+''
      else if is_alnum c \<or> c \<in> set ''*-._'' then [c]
      else [CHR ''%'', upper_digit_char (of_char c div 16), upper_digit_char (of_char c mod 16)])"

definition urlencode :: "string \<Rightarrow> string" where
  "urlencode s = concat (map urlencode_byte s)"

fun URLSearchParams :: "(string \<times> jsval) list \<Rightarrow> (string \<times> string) list option" where
  \<comment> \<open>\<^verbatim>\<open>new URLSearchParams(body)\<close> for a record: each value is converted as by
      \<^verbatim>\<open>String\<close>; \<open>None\<close> when a conversion throws.\<close>
  "URLSearchParams [] = Some []"
| "URLSearchParams ((k, v) # body) =
     (case js_String v of
        None \<Rightarrow> None
      | Some s \<Rightarrow> map_option (Cons (k, s)) (URLSearchParams body))"

definition URLSearchParams_toString :: "(string \<times> string) list \<Rightarrow> string" where
  "URLSearchParams_toString ps = join ''&'' (map (\<lambda>(k, v). urlencode k @ ''='' @ urlencode v) ps)"

definition default_headers :: "(string \<times> string) list" where
  "default_headers = [(''Content-Type'', ''application/json'')]"

text \<open>
  The network is a collaborator: \<open>fetch w url options\<close> stands for
  \<^verbatim>\<open>fetch(params, requestOptions)\<close> followed by \<^verbatim>\<open>fetchResult.json()\<close> in the state \<open>w\<close>
  of the outside world. It yields the thrown error (as \<^verbatim>\<open>ensureError\<close> presents it) or the
  parsed reply, and the next state. An operation of the SDK is a function from the world
  before it to its outcome and the world after it. The payload is an object, as at every
  call site of the SDK; the type \<^verbatim>\<open>JsonRpcParam\<close> would also admit a string, a boolean, a
  bigint or an array at top level, which \<^verbatim>\<open>URLSearchParams\<close> treats differently.
\<close>

type_synonym 'w fetch_fn = "'w \<Rightarrow> string \<Rightarrow> RequestInit \<Rightarrow> (js_error + jsval) \<times> 'w"

type_synonym ('w, 'a) async = "'w \<Rightarrow> (failure + 'a) \<times> 'w"

definition request_of ::
    "string \<Rightarrow> (string \<times> jsval) list \<Rightarrow> http_method \<Rightarrow> (string \<times> string) list
     \<Rightarrow> failure + string \<times> RequestInit" where
  \<comment> \<open>lines 74--97: \<open>params\<close> and \<open>requestOptions\<close>, or the TypeError that
      \<^verbatim>\<open>new URLSearchParams\<close> throws, which is outside the \<^verbatim>\<open>try\<close> block\<close>
  "request_of rpcUrl body method headers =
     (let rawBody = JSON_stringify_hex (JObj body) in
      if method = post then
        Inr (rpcUrl,
             \<lparr>rq_method = ''POST'', rq_headers = headers, rq_body = rawBody,
              rq_redirect = ''follow''\<rparr>)
      else
        (case URLSearchParams body of
           None \<Rightarrow> Inl (TypeError ''Cannot convert object to primitive value'')
         | Some getParams \<Rightarrow>
             Inr (rpcUrl @ ''?'' @ URLSearchParams_toString getParams,
                  \<lparr>rq_method = ''GET'', rq_headers = headers, rq_body = None,
                   rq_redirect = ''follow''\<rparr>)))"

definition request_context :: "string \<Rightarrow> RequestInit \<Rightarrow> jsval" where
  "request_context rpcUrl requestOptions =
     JObj [(''url'', JStr rpcUrl),
           (''requestOptions'',
            (case JSON_stringify (RequestInit_js requestOptions) of
               Some (Some s) \<Rightarrow> JStr s | _ \<Rightarrow> JUndefined))]"

definition check_response :: "string \<Rightarrow> RequestInit \<Rightarrow> jsval \<Rightarrow> failure + jsval" where
  \<comment> \<open>lines 116--143\<close>
  "check_response rpcUrl requestOptions response =
     (case js_in ''code'' response of
        None \<Rightarrow> Inl (TypeError ''Cannot use 'in' operator to search for 'code' '')
      | Some True \<Rightarrow>
          (let err = response in
           case js_String (js_get err ''code'') of
             None \<Rightarrow> Inl (TypeError ''Cannot convert object to primitive value'')
           | Some codeString \<Rightarrow>
               if in_HttpErrorCodeDict codeString then
                 Inl (new_SafeRecoveryServiceSdkError
                   (HttpErrorCodeDict_at codeString) (js_get err ''message'') None
                   (js_get err ''code'') (request_context rpcUrl requestOptions))
               else
                 Inl (new_SafeRecoveryServiceSdkError
                   (Code UNKNOWN_ERROR) (js_get err ''message'') None
                   (js_get err ''code'') (request_context rpcUrl requestOptions)))
      | Some False \<Rightarrow> Inr response)"

definition sendHttpRequest ::
    "'w fetch_fn \<Rightarrow> string \<Rightarrow> (string \<times> jsval) list \<Rightarrow> http_method
     \<Rightarrow> (string \<times> string) list \<Rightarrow> ('w, jsval) async" where
  "sendHttpRequest fetch rpcUrl body method headers w =
     (case request_of rpcUrl body method headers of
        Inl e \<Rightarrow> (Inl e, w)
      | Inr (params, requestOptions) \<Rightarrow>
          (case fetch w params requestOptions of
             (Inl error, w') \<Rightarrow>
               (Inl (new_SafeRecoveryServiceSdkError (Code UNKNOWN_ERROR)
                       (JStr (err_message error)) (Some error) JUndefined
                       (request_context rpcUrl requestOptions)), w')
           | (Inr response, w') \<Rightarrow> (check_response rpcUrl requestOptions response, w')))"

section \<open>Conversions used by the services\<close>

definition is_ws :: "char \<Rightarrow> bool" where
  \<comment> \<open>ASCII white space and line terminators; the non-ASCII ones are not modelled.\<close>
  "is_ws c = ((of_char c :: nat) \<in> {9, 10, 11, 12, 13, 32})"

definition trim :: "string \<Rightarrow> string" where
  "trim s = rev (dropWhile is_ws (rev (dropWhile is_ws s)))"

definition digit_value :: "char \<Rightarrow> nat option" where
  "digit_value c = (let n = (of_char c :: nat) in
     if 48 \<le> n \<and> n \<le> 57 then Some (n - 48)
     else if 97 \<le> n \<and> n \<le> 102 then Some (n - 87)
     else if 65 \<le> n \<and> n \<le> 70 then Some (n - 55)
     else None)"

fun digits_value :: "nat \<Rightarrow> string \<Rightarrow> nat \<Rightarrow> nat option" where
  "digits_value radix [] acc = Some acc"
| "digits_value radix (c # cs) acc =
     (case digit_value c of
        None \<Rightarrow> None
      | Some d \<Rightarrow> if d < radix then digits_value radix cs (acc * radix + d) else None)"

definition parse_digits :: "nat \<Rightarrow> string \<Rightarrow> nat option" where
  "parse_digits radix ds = (if ds = [] then None else digits_value radix ds 0)"

definition signed_integer :: "string \<Rightarrow> int option" where
  "signed_integer s =
     (case s of
        [] \<Rightarrow> None
      | c # ds \<Rightarrow>
          if c = CHR ''+'' then map_option int (parse_digits 10 ds)
          else if c = CHR ''-'' then map_option (\<lambda>n. - int n) (parse_digits 10 ds)
          else map_option int (parse_digits 10 s))"

definition StringToBigInt :: "string \<Rightarrow> int option" where
  "StringToBigInt str =
     (let s = trim str in
      if s = [] then Some 0
      else case s of
        c1 # c2 # ds \<Rightarrow>
          if c1 = CHR ''0'' \<and> (c2 = CHR ''x'' \<or> c2 = CHR ''X'') then map_option int (parse_digits 16 ds)
          else if c1 = CHR ''0'' \<and> (c2 = CHR ''o'' \<or> c2 = CHR ''O'') then map_option int (parse_digits 8 ds)
          else if c1 = CHR ''0'' \<and> (c2 = CHR ''b'' \<or> c2 = CHR ''B'') then map_option int (parse_digits 2 ds)
          else signed_integer s
      | _ \<Rightarrow> signed_integer s)"

definition SyntaxError :: "string \<Rightarrow> js_error" where
  "SyntaxError m = \<lparr>err_name = ''SyntaxError'', err_message = m\<rparr>"

fun js_BigInt :: "jsval \<Rightarrow> js_error + int" where
  \<comment> \<open>\<^verbatim>\<open>BigInt(v)\<close>\<close>
  "js_BigInt JUndefined =
     Inl \<lparr>err_name = ''TypeError'', err_message = ''Cannot convert undefined to a BigInt''\<rparr>"
| "js_BigInt JNull =
     Inl \<lparr>err_name = ''TypeError'', err_message = ''Cannot convert null to a BigInt''\<rparr>"
| "js_BigInt (JBool b) = Inr (if b then 1 else 0)"
| "js_BigInt (JNum n) = Inr n"
| "js_BigInt (JBigInt n) = Inr n"
| "js_BigInt v =
     (case js_String v of
        None \<Rightarrow>
          Inl \<lparr>err_name = ''TypeError'',
               err_message = ''Cannot convert object to primitive value''\<rparr>
      | Some s \<Rightarrow>
          (case StringToBigInt s of
             None \<Rightarrow> Inl (SyntaxError (''Cannot convert '' @ s @ '' to a BigInt''))
           | Some n \<Rightarrow> Inr n))"

definition toQuantity :: "int \<Rightarrow> js_error + string" where
  \<comment> \<open>\<^verbatim>\<open>ethers.toQuantity\<close> of a bigint: refuses a negative value, prints no leading zero.\<close>
  "toQuantity n =
     (if n < 0 then Inl \<lparr>err_name = ''Error'', err_message = ''unsigned value cannot be negative''\<rparr>
      else Inr (''0x'' @ hex_digits (nat n)))"

fun js_iterate :: "jsval \<Rightarrow> jsval list option" where
  \<comment> \<open>what \<^verbatim>\<open>for (const x of v)\<close> visits; \<open>None\<close> is the TypeError for a value that is
      not iterable. A string is visited character by character.\<close>
  "js_iterate (JArr xs) = Some xs"
| "js_iterate (JStr s) = Some (map (\<lambda>c. JStr [c]) s)"
| "js_iterate v = None"

section \<open>RecoveryByGuardianService (recoveryByGuardian.ts, the documented class)\<close>

record service =
  serviceEndpoint :: string
  chainId :: int

record RecoveryByGuardianService = service +
  recoveryModuleAddress :: jsval

datatype RecoveryStatus = PENDING | EXECUTED | FINALIZED

fun status_string :: "RecoveryStatus \<Rightarrow> string" where
  "status_string PENDING = ''PENDING''"
| "status_string EXECUTED = ''EXECUTED''"
| "status_string FINALIZED = ''FINALIZED''"

fun loose_eq_status :: "jsval \<Rightarrow> RecoveryStatus \<Rightarrow> bool option" where
  \<comment> \<open>\<^verbatim>\<open>v == status\<close>; \<open>None\<close> is the TypeError of a conversion that throws. A string
      compares by content; an array or object is first converted to a primitive, which is
      the string that \<^verbatim>\<open>String\<close> gives, or throws; a number, boolean or bigint compares
      with the numeric value of the status name, which is none; \<^verbatim>\<open>null\<close> and
      \<^verbatim>\<open>undefined\<close> equal no string.\<close>
  "loose_eq_status (JStr s) status = Some (s = status_string status)"
| "loose_eq_status (JArr xs) status =
     map_option (\<lambda>s. s = status_string status) (js_String (JArr xs))"
| "loose_eq_status (JObj kvs) status =
     map_option (\<lambda>s. s = status_string status) (js_String (JObj kvs))"
| "loose_eq_status v status = Some False"

text \<open>
  The methods take the request id as a JavaScript value: TypeScript declares a string, and
  \<^verbatim>\<open>createAndExecuteRecoveryRequest\<close> passes the unchecked \<^verbatim>\<open>id\<close> of a reply. For the same
  reason \<open>recoveryModuleAddress\<close> is a JavaScript value.
\<close>

text \<open>
  The ledger is the second collaborator: \<open>nonceOf w module rpcNode account\<close> stands for
  \<^verbatim>\<open>new SocialRecoveryModule(module).nonce(rpcNode, account)\<close>, a read of an unsigned counter.
\<close>

type_synonym 'w nonce_fn = "'w \<Rightarrow> jsval \<Rightarrow> string \<Rightarrow> string \<Rightarrow> (js_error + nat) \<times> 'w"

definition nonce_BigInt :: "jsval \<Rightarrow> failure + jsval" where
  \<comment> \<open>\<^verbatim>\<open>request.nonce = BigInt(request.nonce)\<close>\<close>
  "nonce_BigInt request =
     (if nullish request then Inl (TypeError ''Cannot read properties of null (reading 'nonce')'')
      else case js_BigInt (js_get request ''nonce'') of
        Inl e \<Rightarrow> Inl (NativeError e)
      | Inr n \<Rightarrow>
          (case request of
             JObj kvs \<Rightarrow> Inr (JObj (js_set kvs ''nonce'' (JBigInt n)))
           | _ \<Rightarrow> Inr request))"

fun nonces_BigInt :: "jsval list \<Rightarrow> failure + jsval list" where
  \<comment> \<open>the loop of \<^verbatim>\<open>getRecoveryRequests\<close>\<close>
  "nonces_BigInt [] = Inr []"
| "nonces_BigInt (request # rest) =
     (case nonce_BigInt request of
        Inl e \<Rightarrow> Inl e
      | Inr r \<Rightarrow> (case nonces_BigInt rest of Inl e \<Rightarrow> Inl e | Inr rs \<Rightarrow> Inr (r # rs)))"

definition getRecoveryRequests ::
    "'w fetch_fn \<Rightarrow> RecoveryByGuardianService \<Rightarrow> string \<Rightarrow> int \<Rightarrow> ('w, jsval) async" where
  "getRecoveryRequests fetch this accountAddress recoveryNonce w =
     (let fullServiceEndpointUrl = serviceEndpoint this @ ''/v1/recoveries/fetchByAddress'' in
      case toQuantity recoveryNonce of
        Inl e \<Rightarrow> (Inl (NativeError e), w)
      | Inr quantity \<Rightarrow>
          (case sendHttpRequest fetch fullServiceEndpointUrl
                  [(''account'', JStr accountAddress),
                   (''chainId'', JNum (chainId this)),
                   (''nonce'', JStr quantity)] get default_headers w of
             (Inl e, w') \<Rightarrow> (Inl e, w')
           | (Inr response, w') \<Rightarrow>
               (case js_iterate response of
                  None \<Rightarrow> (Inl (TypeError ''response is not iterable''), w')
                | Some requests \<Rightarrow>
                    (case nonces_BigInt requests of
                       Inl e \<Rightarrow> (Inl e, w')
                     | Inr converted \<Rightarrow>
                         (Inr (case response of JArr xs \<Rightarrow> JArr converted | _ \<Rightarrow> response), w')))))"

fun push_matching :: "RecoveryStatus \<Rightarrow> jsval list \<Rightarrow> jsval list \<Rightarrow> failure + jsval list" where
  \<comment> \<open>the loop of \<^verbatim>\<open>getRecoveryRequestsForLatestNonce\<close>; the third argument is the array
      \<^verbatim>\<open>recoveryRequests\<close> built so far\<close>
  "push_matching status [] recoveryRequests = Inr recoveryRequests"
| "push_matching status (recoveryRequest # rest) recoveryRequests =
     (if nullish recoveryRequest then
        Inl (TypeError ''Cannot read properties of null (reading 'status')'')
      else case loose_eq_status (js_get recoveryRequest ''status'') status of
        None \<Rightarrow> Inl (TypeError ''Cannot convert object to primitive value'')
      | Some True \<Rightarrow> push_matching status rest (recoveryRequests @ [recoveryRequest])
      | Some False \<Rightarrow> push_matching status rest recoveryRequests)"

definition getRecoveryRequestsForLatestNonce ::
    "'w fetch_fn \<Rightarrow> 'w nonce_fn \<Rightarrow> RecoveryByGuardianService \<Rightarrow> string \<Rightarrow> string
     \<Rightarrow> RecoveryStatus \<Rightarrow> ('w, jsval list) async" where
  "getRecoveryRequestsForLatestNonce fetch nonceOf this rpcNode accountAddress status w =
     (case nonceOf w (recoveryModuleAddress this) rpcNode accountAddress of
        (Inl error, w1) \<Rightarrow>
          (Inl (new_SafeRecoveryServiceSdkError (Code UNKNOWN_ERROR)
                  (JStr ''failed fetching nonce'') (Some error) JUndefined
                  (JObj [(''accountAddress'', JStr accountAddress), (''rpcNode'', JStr rpcNode)])),
           w1)
      | (Inr n, w1) \<Rightarrow>
          (let recoveryNonce = int n in
           if recoveryNonce = 0 \<and> status \<noteq> PENDING then (Inr [], w1)
           else
             (let recoveryNonce = (if status \<noteq> PENDING then recoveryNonce - 1 else recoveryNonce) in
              case getRecoveryRequests fetch this accountAddress recoveryNonce w1 of
                (Inl e, w2) \<Rightarrow> (Inl e, w2)
              | (Inr result, w2) \<Rightarrow>
                  (case js_iterate result of
                     None \<Rightarrow> (Inl (TypeError ''result is not iterable''), w2)
                   | Some requests \<Rightarrow> (push_matching status requests [], w2)))))"

definition getPendingRecoveryRequestsForLatestNonce ::
    "'w fetch_fn \<Rightarrow> 'w nonce_fn \<Rightarrow> RecoveryByGuardianService \<Rightarrow> string \<Rightarrow> string
     \<Rightarrow> ('w, jsval list) async" where
  "getPendingRecoveryRequestsForLatestNonce fetch nonceOf this rpcNode accountAddress =
     getRecoveryRequestsForLatestNonce fetch nonceOf this rpcNode accountAddress PENDING"

definition getExecutedRecoveryRequestForLatestNonce ::
    "'w fetch_fn \<Rightarrow> 'w nonce_fn \<Rightarrow> RecoveryByGuardianService \<Rightarrow> string \<Rightarrow> string
     \<Rightarrow> ('w, jsval) async" where
  "getExecutedRecoveryRequestForLatestNonce fetch nonceOf this rpcNode accountAddress w =
     (case getRecoveryRequestsForLatestNonce fetch nonceOf this rpcNode accountAddress EXECUTED w of
        (Inl e, w') \<Rightarrow> (Inl e, w')
      | (Inr recoveryRequests, w') \<Rightarrow>
          if length recoveryRequests = 0 then (Inr JNull, w')
          else if length recoveryRequests = 1 then (Inr (recoveryRequests ! 0), w')
          else
            (Inl (new_SafeRecoveryServiceSdkError (Code BAD_DATA)
                    (JStr ''getExecutedRecoveryRequestsForLatestNonce failed'')
                    (Some (ensureError (JStr ''there can be only one EXECUTED recovery per nonce'')))
                    JUndefined JUndefined), w'))"

definition getFinalizedRecoveryRequestForLatestNonce ::
    "'w fetch_fn \<Rightarrow> 'w nonce_fn \<Rightarrow> RecoveryByGuardianService \<Rightarrow> string \<Rightarrow> string
     \<Rightarrow> ('w, jsval) async" where
  "getFinalizedRecoveryRequestForLatestNonce fetch nonceOf this rpcNode accountAddress w =
     (case getRecoveryRequestsForLatestNonce fetch nonceOf this rpcNode accountAddress FINALIZED w of
        (Inl e, w') \<Rightarrow> (Inl e, w')
      | (Inr recoveryRequests, w') \<Rightarrow>
          if length recoveryRequests = 0 then (Inr JNull, w')
          else if length recoveryRequests = 1 then (Inr (recoveryRequests ! 0), w')
          else
            (Inl (new_SafeRecoveryServiceSdkError (Code BAD_DATA)
                    (JStr ''getFinalizedRecoveryRequestsForLatestNonce failed'')
                    (Some (ensureError (JStr ''there can be only one FINALIZED recovery per nonce'')))
                    JUndefined JUndefined), w'))"

definition createRecoveryRequest ::
    "'w fetch_fn \<Rightarrow> RecoveryByGuardianService \<Rightarrow> string \<Rightarrow> string list \<Rightarrow> int \<Rightarrow> string
     \<Rightarrow> string \<Rightarrow> ('w, jsval) async" where
  "createRecoveryRequest fetch this accountAddress newOwners newThreshold guardianAddress
       guardianSignature w =
     (let fullServiceEndpointUrl = serviceEndpoint this @ ''/v1/recoveries/create'' in
      case sendHttpRequest fetch fullServiceEndpointUrl
             [(''account'', JStr accountAddress),
              (''newOwners'', JArr (map JStr newOwners)),
              (''newThreshold'', JNum newThreshold),
              (''chainId'', JNum (chainId this)),
              (''signer'', JStr guardianAddress),
              (''signature'', JStr guardianSignature)] post default_headers w of
        (Inl e, w') \<Rightarrow> (Inl e, w')
      | (Inr response, w') \<Rightarrow> (nonce_BigInt response, w'))"

definition submitGuardianSignatureForRecoveryRequest ::
    "'w fetch_fn \<Rightarrow> RecoveryByGuardianService \<Rightarrow> jsval \<Rightarrow> string \<Rightarrow> string
     \<Rightarrow> ('w, bool) async" where
  "submitGuardianSignatureForRecoveryRequest fetch this id' guardianAddress guardianSignature w =
     (let fullServiceEndpointUrl = serviceEndpoint this @ ''/v1/recoveries/sign'' in
      case sendHttpRequest fetch fullServiceEndpointUrl
             [(''id'', id'), (''signer'', JStr guardianAddress), (''signature'', JStr guardianSignature)]
             post default_headers w of
        (Inl e, w') \<Rightarrow> (Inl e, w')
      | (Inr response, w') \<Rightarrow>
          if typeof response \<noteq> T_object \<or> response = JNull
             \<or> js_in ''success'' response \<noteq> Some True
             \<or> typeof (js_get response ''success'') \<noteq> T_boolean
          then
            (Inl (new_SafeRecoveryServiceSdkError (Code BAD_DATA)
                    (JStr (fullServiceEndpointUrl @ '' failed'')) (Some (ensureError response))
                    JUndefined
                    (JObj [(''id'', id'), (''signer'', JStr guardianAddress),
                           (''signature'', JStr guardianSignature)])), w')
          else (Inr (js_get response ''success'' = JBool True), w'))"

definition executeRecoveryRequest ::
    "'w fetch_fn \<Rightarrow> RecoveryByGuardianService \<Rightarrow> jsval \<Rightarrow> ('w, bool) async" where
  "executeRecoveryRequest fetch this id' w =
     (let fullServiceEndpointUrl = serviceEndpoint this @ ''/v1/recoveries/execute'' in
      case sendHttpRequest fetch fullServiceEndpointUrl [(''id'', id')] post default_headers w of
        (Inl e, w') \<Rightarrow> (Inl e, w')
      | (Inr response, w') \<Rightarrow>
          if typeof response \<noteq> T_object \<or> response = JNull
             \<or> js_in ''success'' response \<noteq> Some True
             \<or> typeof (js_get response ''success'') \<noteq> T_boolean
          then
            (Inl (new_SafeRecoveryServiceSdkError (Code BAD_DATA)
                    (JStr (fullServiceEndpointUrl @ '' failed'')) (Some (ensureError response))
                    JUndefined (JObj [(''id'', id')])), w')
          else (Inr (js_get response ''success'' = JBool True), w'))"

definition finalizeRecoveryRequest ::
    "'w fetch_fn \<Rightarrow> RecoveryByGuardianService \<Rightarrow> jsval \<Rightarrow> ('w, bool) async" where
  "finalizeRecoveryRequest fetch this id' w =
     (let fullServiceEndpointUrl = serviceEndpoint this @ ''/v1/recoveries/finalize'' in
      case sendHttpRequest fetch fullServiceEndpointUrl [(''id'', id')] post default_headers w of
        (Inl e, w') \<Rightarrow> (Inl e, w')
      | (Inr response, w') \<Rightarrow>
          if typeof response \<noteq> T_object \<or> response = JNull
             \<or> js_in ''success'' response \<noteq> Some True
             \<or> typeof (js_get response ''success'') \<noteq> T_boolean
          then
            (Inl (new_SafeRecoveryServiceSdkError (Code BAD_DATA)
                    (JStr (fullServiceEndpointUrl @ '' failed'')) (Some (ensureError response))
                    JUndefined (JObj [(''id'', id')])), w')
          else (Inr (js_get response ''success'' = JBool True), w'))"

section \<open>RecoveryByGuardianService (the second, undocumented copy of the class)\<close>

text \<open>
  The repository holds a second file that declares the same class without its doc comments.
  Its methods are embedded on their own, from that file, under the prefix \<open>dup_\<close>; both
  files import the same \<^verbatim>\<open>sendHttpRequest\<close> and error class.
\<close>

definition dup_nonce_BigInt :: "jsval \<Rightarrow> failure + jsval" where
  \<comment> \<open>\<^verbatim>\<open>request.nonce = BigInt(request.nonce)\<close>\<close>
  "dup_nonce_BigInt request =
     (if nullish request then Inl (TypeError ''Cannot read properties of null (reading 'nonce')'')
      else case js_BigInt (js_get request ''nonce'') of
        Inl e \<Rightarrow> Inl (NativeError e)
      | Inr n \<Rightarrow>
          (case request of
             JObj kvs \<Rightarrow> Inr (JObj (js_set kvs ''nonce'' (JBigInt n)))
           | _ \<Rightarrow> Inr request))"

fun dup_nonces_BigInt :: "jsval list \<Rightarrow> failure + jsval list" where
  \<comment> \<open>the loop of \<^verbatim>\<open>dup_getRecoveryRequests\<close>\<close>
  "dup_nonces_BigInt [] = Inr []"
| "dup_nonces_BigInt (request # rest) =
     (case dup_nonce_BigInt request of
        Inl e \<Rightarrow> Inl e
      | Inr r \<Rightarrow> (case dup_nonces_BigInt rest of Inl e \<Rightarrow> Inl e | Inr rs \<Rightarrow> Inr (r # rs)))"

definition dup_getRecoveryRequests ::
    "'w fetch_fn \<Rightarrow> RecoveryByGuardianService \<Rightarrow> string \<Rightarrow> int \<Rightarrow> ('w, jsval) async" where
  "dup_getRecoveryRequests fetch this accountAddress recoveryNonce w =
     (let fullServiceEndpointUrl = serviceEndpoint this @ ''/v1/recoveries/fetchByAddress'' in
      case toQuantity recoveryNonce of
        Inl e \<Rightarrow> (Inl (NativeError e), w)
      | Inr quantity \<Rightarrow>
          (case sendHttpRequest fetch fullServiceEndpointUrl
                  [(''account'', JStr accountAddress),
                   (''chainId'', JNum (chainId this)),
                   (''nonce'', JStr quantity)] get default_headers w of
             (Inl e, w') \<Rightarrow> (Inl e, w')
           | (Inr response, w') \<Rightarrow>
               (case js_iterate response of
                  None \<Rightarrow> (Inl (TypeError ''response is not iterable''), w')
                | Some requests \<Rightarrow>
                    (case dup_nonces_BigInt requests of
                       Inl e \<Rightarrow> (Inl e, w')
                     | Inr converted \<Rightarrow>
                         (Inr (case response of JArr xs \<Rightarrow> JArr converted | _ \<Rightarrow> response), w')))))"

fun dup_push_matching :: "RecoveryStatus \<Rightarrow> jsval list \<Rightarrow> jsval list \<Rightarrow> failure + jsval list" where
  \<comment> \<open>the loop of \<^verbatim>\<open>dup_getRecoveryRequestsForLatestNonce\<close>; the third argument is the array
      \<^verbatim>\<open>recoveryRequests\<close> built so far\<close>
  "dup_push_matching status [] recoveryRequests = Inr recoveryRequests"
| "dup_push_matching status (recoveryRequest # rest) recoveryRequests =
     (if nullish recoveryRequest then
        Inl (TypeError ''Cannot read properties of null (reading 'status')'')
      else case loose_eq_status (js_get recoveryRequest ''status'') status of
        None \<Rightarrow> Inl (TypeError ''Cannot convert object to primitive value'')
      | Some True \<Rightarrow> dup_push_matching status rest (recoveryRequests @ [recoveryRequest])
      | Some False \<Rightarrow> dup_push_matching status rest recoveryRequests)"

definition dup_getRecoveryRequestsForLatestNonce ::
    "'w fetch_fn \<Rightarrow> 'w nonce_fn \<Rightarrow> RecoveryByGuardianService \<Rightarrow> string \<Rightarrow> string
     \<Rightarrow> RecoveryStatus \<Rightarrow> ('w, jsval list) async" where
  "dup_getRecoveryRequestsForLatestNonce fetch nonceOf this rpcNode accountAddress status w =
     (case nonceOf w (recoveryModuleAddress this) rpcNode accountAddress of
        (Inl error, w1) \<Rightarrow>
          (Inl (new_SafeRecoveryServiceSdkError (Code UNKNOWN_ERROR)
                  (JStr ''failed fetching nonce'') (Some error) JUndefined
                  (JObj [(''accountAddress'', JStr accountAddress), (''rpcNode'', JStr rpcNode)])),
           w1)
      | (Inr n, w1) \<Rightarrow>
          (let recoveryNonce = int n in
           if recoveryNonce = 0 \<and> status \<noteq> PENDING then (Inr [], w1)
           else
             (let recoveryNonce = (if status \<noteq> PENDING then recoveryNonce - 1 else recoveryNonce) in
              case dup_getRecoveryRequests fetch this accountAddress recoveryNonce w1 of
                (Inl e, w2) \<Rightarrow> (Inl e, w2)
              | (Inr result, w2) \<Rightarrow>
                  (case js_iterate result of
                     None \<Rightarrow> (Inl (TypeError ''result is not iterable''), w2)
                   | Some requests \<Rightarrow> (dup_push_matching status requests [], w2)))))"

definition dup_getPendingRecoveryRequestsForLatestNonce ::
    "'w fetch_fn \<Rightarrow> 'w nonce_fn \<Rightarrow> RecoveryByGuardianService \<Rightarrow> string \<Rightarrow> string
     \<Rightarrow> ('w, jsval list) async" where
  "dup_getPendingRecoveryRequestsForLatestNonce fetch nonceOf this rpcNode accountAddress =
     dup_getRecoveryRequestsForLatestNonce fetch nonceOf this rpcNode accountAddress PENDING"

definition dup_getExecutedRecoveryRequestForLatestNonce ::
    "'w fetch_fn \<Rightarrow> 'w nonce_fn \<Rightarrow> RecoveryByGuardianService \<Rightarrow> string \<Rightarrow> string
     \<Rightarrow> ('w, jsval) async" where
  "dup_getExecutedRecoveryRequestForLatestNonce fetch nonceOf this rpcNode accountAddress w =
     (case dup_getRecoveryRequestsForLatestNonce fetch nonceOf this rpcNode accountAddress EXECUTED w of
        (Inl e, w') \<Rightarrow> (Inl e, w')
      | (Inr recoveryRequests, w') \<Rightarrow>
          if length recoveryRequests = 0 then (Inr JNull, w')
          else if length recoveryRequests = 1 then (Inr (recoveryRequests ! 0), w')
          else
            (Inl (new_SafeRecoveryServiceSdkError (Code BAD_DATA)
                    (JStr ''getExecutedRecoveryRequestsForLatestNonce failed'')
                    (Some (ensureError (JStr ''there can be only one EXECUTED recovery per nonce'')))
                    JUndefined JUndefined), w'))"

definition dup_getFinalizedRecoveryRequestForLatestNonce ::
    "'w fetch_fn \<Rightarrow> 'w nonce_fn \<Rightarrow> RecoveryByGuardianService \<Rightarrow> string \<Rightarrow> string
     \<Rightarrow> ('w, jsval) async" where
  "dup_getFinalizedRecoveryRequestForLatestNonce fetch nonceOf this rpcNode accountAddress w =
     (case dup_getRecoveryRequestsForLatestNonce fetch nonceOf this rpcNode accountAddress FINALIZED w of
        (Inl e, w') \<Rightarrow> (Inl e, w')
      | (Inr recoveryRequests, w') \<Rightarrow>
          if length recoveryRequests = 0 then (Inr JNull, w')
          else if length recoveryRequests = 1 then (Inr (recoveryRequests ! 0), w')
          else
            (Inl (new_SafeRecoveryServiceSdkError (Code BAD_DATA)
                    (JStr ''getFinalizedRecoveryRequestsForLatestNonce failed'')
                    (Some (ensureError (JStr ''there can be only one FINALIZED recovery per nonce'')))
                    JUndefined JUndefined), w'))"

definition dup_createRecoveryRequest ::
    "'w fetch_fn \<Rightarrow> RecoveryByGuardianService \<Rightarrow> string \<Rightarrow> string list \<Rightarrow> int \<Rightarrow> string
     \<Rightarrow> string \<Rightarrow> ('w, jsval) async" where
  "dup_createRecoveryRequest fetch this accountAddress newOwners newThreshold guardianAddress
       guardianSignature w =
     (let fullServiceEndpointUrl = serviceEndpoint this @ ''/v1/recoveries/create'' in
      case sendHttpRequest fetch fullServiceEndpointUrl
             [(''account'', JStr accountAddress),
              (''newOwners'', JArr (map JStr newOwners)),
              (''newThreshold'', JNum newThreshold),
              (''chainId'', JNum (chainId this)),
              (''signer'', JStr guardianAddress),
              (''signature'', JStr guardianSignature)] post default_headers w of
        (Inl e, w') \<Rightarrow> (Inl e, w')
      | (Inr response, w') \<Rightarrow> (dup_nonce_BigInt response, w'))"

definition dup_submitGuardianSignatureForRecoveryRequest ::
    "'w fetch_fn \<Rightarrow> RecoveryByGuardianService \<Rightarrow> jsval \<Rightarrow> string \<Rightarrow> string
     \<Rightarrow> ('w, bool) async" where
  "dup_submitGuardianSignatureForRecoveryRequest fetch this id' guardianAddress guardianSignature w =
     (let fullServiceEndpointUrl = serviceEndpoint this @ ''/v1/recoveries/sign'' in
      case sendHttpRequest fetch fullServiceEndpointUrl
             [(''id'', id'), (''signer'', JStr guardianAddress), (''signature'', JStr guardianSignature)]
             post default_headers w of
        (Inl e, w') \<Rightarrow> (Inl e, w')
      | (Inr response, w') \<Rightarrow>
          if typeof response \<noteq> T_object \<or> response = JNull
             \<or> js_in ''success'' response \<noteq> Some True
             \<or> typeof (js_get response ''success'') \<noteq> T_boolean
          then
            (Inl (new_SafeRecoveryServiceSdkError (Code BAD_DATA)
                    (JStr (fullServiceEndpointUrl @ '' failed'')) (Some (ensureError response))
                    JUndefined
                    (JObj [(''id'', id'), (''signer'', JStr guardianAddress),
                           (''signature'', JStr guardianSignature)])), w')
          else (Inr (js_get response ''success'' = JBool True), w'))"

definition dup_executeRecoveryRequest ::
    "'w fetch_fn \<Rightarrow> RecoveryByGuardianService \<Rightarrow> jsval \<Rightarrow> ('w, bool) async" where
  "dup_executeRecoveryRequest fetch this id' w =
     (let fullServiceEndpointUrl = serviceEndpoint this @ ''/v1/recoveries/execute'' in
      case sendHttpRequest fetch fullServiceEndpointUrl [(''id'', id')] post default_headers w of
        (Inl e, w') \<Rightarrow> (Inl e, w')
      | (Inr response, w') \<Rightarrow>
          if typeof response \<noteq> T_object \<or> response = JNull
             \<or> js_in ''success'' response \<noteq> Some True
             \<or> typeof (js_get response ''success'') \<noteq> T_boolean
          then
            (Inl (new_SafeRecoveryServiceSdkError (Code BAD_DATA)
                    (JStr (fullServiceEndpointUrl @ '' failed'')) (Some (ensureError response))
                    JUndefined (JObj [(''id'', id')])), w')
          else (Inr (js_get response ''success'' = JBool True), w'))"

definition dup_finalizeRecoveryRequest ::
    "'w fetch_fn \<Rightarrow> RecoveryByGuardianService \<Rightarrow> jsval \<Rightarrow> ('w, bool) async" where
  "dup_finalizeRecoveryRequest fetch this id' w =
     (let fullServiceEndpointUrl = serviceEndpoint this @ ''/v1/recoveries/finalize'' in
      case sendHttpRequest fetch fullServiceEndpointUrl [(''id'', id')] post default_headers w of
        (Inl e, w') \<Rightarrow> (Inl e, w')
      | (Inr response, w') \<Rightarrow>
          if typeof response \<noteq> T_object \<or> response = JNull
             \<or> js_in ''success'' response \<noteq> Some True
             \<or> typeof (js_get response ''success'') \<noteq> T_boolean
          then
            (Inl (new_SafeRecoveryServiceSdkError (Code BAD_DATA)
                    (JStr (fullServiceEndpointUrl @ '' failed'')) (Some (ensureError response))
                    JUndefined (JObj [(''id'', id')])), w')
          else (Inr (js_get response ''success'' = JBool True), w'))"

section \<open>The typed-statement builder (utils.ts)\<close>

record SiweMessage =
  siwe_version :: string
  siwe_address :: string
  siwe_domain :: string
  siwe_uri :: string
  siwe_statement :: string
  siwe_chainId :: js_number
  siwe_nonce :: string
  siwe_issuedAt :: string

text \<open>
  \<^verbatim>\<open>generateSIWEMessage\<close> calls four things that are not code of the SDK, which the model
  takes as arguments: \<open>getAddress\<close> for \<^verbatim>\<open>ethers.getAddress\<close> (the checksummed address, or
  the error thrown for a malformed one), \<open>prepare\<close> for
  \<^verbatim>\<open>new SiweMessage(fields).prepareMessage()\<close> (the message text, or the error thrown when
  the library rejects the fields), \<open>entropy\<close> for the random source behind
  \<^verbatim>\<open>ethers.randomBytes\<close> (byte \<open>i\<close> of the bytes it hands out next), and \<open>now\<close> for
  \<^verbatim>\<open>new Date().toISOString()\<close>.
\<close>

definition randomBytes :: "(nat \<Rightarrow> 8 word) \<Rightarrow> nat \<Rightarrow> 8 word list" where
  "randomBytes entropy n = map entropy [0 ..< n]"

definition hexlify :: "8 word list \<Rightarrow> string" where
  "hexlify bytes = ''0x'' @ concat (map (\<lambda>b. hex2 (unat b)) bytes)"

definition generateSIWEMessage ::
    "(string \<Rightarrow> js_error + string) \<Rightarrow> (SiweMessage \<Rightarrow> js_error + string) \<Rightarrow> (nat \<Rightarrow> 8 word)
     \<Rightarrow> string \<Rightarrow> string \<Rightarrow> string \<Rightarrow> int \<Rightarrow> string \<Rightarrow> string \<Rightarrow> failure + string" where
  "generateSIWEMessage getAddress prepare entropy now accountAddress statement chainId' siweDomain
       siweUri =
     (let issuedAt = now;
          wrap = (\<lambda>error. Inl (new_SafeRecoveryServiceSdkError (Code SIWE_ERROR)
                    (JStr (err_message error)) (Some error) JUndefined
                    (JObj [(''accountAddress'', JStr accountAddress),
                           (''statement'', JStr statement)])))
      in case getAddress accountAddress of
        Inl error \<Rightarrow> wrap error
      | Inr address \<Rightarrow>
          (case prepare \<lparr>siwe_version = ''1'', siwe_address = address, siwe_domain = siweDomain,
                         siwe_uri = siweUri, siwe_statement = statement,
                         siwe_chainId = js_Number chainId',
                         siwe_nonce = hexlify (randomBytes entropy 24), siwe_issuedAt = issuedAt\<rparr> of
             Inl error \<Rightarrow> wrap error
           | Inr m \<Rightarrow> Inr m))"

definition getNetworkConfig :: "'w fetch_fn \<Rightarrow> string \<Rightarrow> int \<Rightarrow> ('w, jsval) async" where
  "getNetworkConfig fetch serviceEndpoint' chainId' =
     sendHttpRequest fetch (serviceEndpoint' @ ''/v1/config/getNetworkConfig'')
       [(''chainId'', JNum chainId')] get default_headers"

section \<open>RecoveryByCustodialGuardian (recoveryByCustodialGuardian.ts)\<close>

record RecoveryByCustodialGuardian = service +
  siweDomain :: string
  siweUri :: string

definition bad_registration :: "jsval \<Rightarrow> bool" where
  \<comment> \<open>the condition of the \<^verbatim>\<open>if\<close> in the loop of \<^verbatim>\<open>getRegistrations\<close>\<close>
  "bad_registration element =
     (typeof element \<noteq> T_object \<or> element = JNull
      \<or> js_in ''id'' element \<noteq> Some True \<or> typeof (js_get element ''id'') \<noteq> T_string
      \<or> js_in ''channel'' element \<noteq> Some True \<or> typeof (js_get element ''channel'') \<noteq> T_string
      \<or> js_in ''target'' element \<noteq> Some True \<or> typeof (js_get element ''target'') \<noteq> T_string)"

fun check_registrations :: "failure \<Rightarrow> jsval list \<Rightarrow> failure option" where
  \<comment> \<open>the loop of \<^verbatim>\<open>getRegistrations\<close>: the first bad element throws\<close>
  "check_registrations e [] = None"
| "check_registrations e (element # rest) =
     (if bad_registration element then Some e else check_registrations e rest)"

definition getRegistrations ::
    "'w fetch_fn \<Rightarrow> RecoveryByCustodialGuardian \<Rightarrow> string \<Rightarrow> string \<Rightarrow> string
     \<Rightarrow> ('w, jsval) async" where
  "getRegistrations fetch this accountAddress siweMessage eip1271SiweContractSignature w =
     (let fullServiceEndpointUrl = serviceEndpoint this @ ''/v1/auth/registrations'' in
      case sendHttpRequest fetch fullServiceEndpointUrl
             [(''account'', JStr accountAddress),
              (''chainId'', JNum (chainId this)),
              (''message'', JStr siweMessage),
              (''signature'', JStr eip1271SiweContractSignature)] get default_headers w of
        (Inl e, w') \<Rightarrow> (Inl e, w')
      | (Inr response, w') \<Rightarrow>
          (let registrations = js_get response ''registrations'' in
           case js_iterate registrations of
             None \<Rightarrow> (Inl (TypeError ''registrations is not iterable''), w')
           | Some elements \<Rightarrow>
               (case check_registrations
                       (new_SafeRecoveryServiceSdkError (Code BAD_DATA)
                          (JStr (fullServiceEndpointUrl @ '' failed'')) None JUndefined
                          (JObj [(''response'',
                                  (case JSON_stringify response of
                                     Some (Some s) \<Rightarrow> JStr s | _ \<Rightarrow> JUndefined))]))
                       elements of
                  Some e \<Rightarrow> (Inl e, w')
                | None \<Rightarrow> (Inr registrations, w'))))"

definition requestCustodialGuardianSignatureChallenge ::
    "'w fetch_fn \<Rightarrow> RecoveryByCustodialGuardian \<Rightarrow> string \<Rightarrow> string list \<Rightarrow> int
     \<Rightarrow> ('w, jsval) async" where
  "requestCustodialGuardianSignatureChallenge fetch this accountAddress newOwners newThreshold w =
     (let fullServiceEndpointUrl = serviceEndpoint this @ ''/v1/auth/signature/request'' in
      case sendHttpRequest fetch fullServiceEndpointUrl
             [(''account'', JStr accountAddress),
              (''newOwners'', JArr (map JStr newOwners)),
              (''newThreshold'', JNum newThreshold),
              (''chainId'', JNum (chainId this))] post default_headers w of
        (Inl e, w') \<Rightarrow> (Inl e, w')
      | (Inr response, w') \<Rightarrow>
          if typeof response \<noteq> T_object \<or> response = JNull
             \<or> js_in ''requestId'' response \<noteq> Some True
             \<or> typeof (js_get response ''requestId'') \<noteq> T_string
             \<or> js_in ''requiredVerifications'' response \<noteq> Some True
             \<or> typeof (js_get response ''requiredVerifications'') \<noteq> T_number
          then
            (Inl (new_SafeRecoveryServiceSdkError (Code BAD_DATA)
                    (JStr (fullServiceEndpointUrl @ '' failed'')) (Some (ensureError response))
                    JUndefined
                    (JObj [(''account'', JStr accountAddress),
                           (''newOwners'', JArr (map JStr newOwners)),
                           (''newThreshold'', JNum newThreshold),
                           (''chainId'', JNum (chainId this))])), w')
          else (Inr response, w'))"

record ChallengeResult =
  success :: jsval
  custodianGuardianAddress :: jsval
  custodianGuardianSignature :: jsval

definition submitCustodialGuardianSignatureChallenge ::
    "'w fetch_fn \<Rightarrow> RecoveryByCustodialGuardian \<Rightarrow> string \<Rightarrow> string \<Rightarrow> string
     \<Rightarrow> ('w, ChallengeResult) async" where
  "submitCustodialGuardianSignatureChallenge fetch this requestId challengeId otpChallenge w =
     (let fullServiceEndpointUrl = serviceEndpoint this @ ''/v1/auth/signature/submit'' in
      case sendHttpRequest fetch fullServiceEndpointUrl
             [(''requestId'', JStr requestId),
              (''challengeId'', JStr challengeId),
              (''challenge'', JStr otpChallenge)] post default_headers w of
        (Inl e, w') \<Rightarrow> (Inl e, w')
      | (Inr response, w') \<Rightarrow>
          (Inr \<lparr>success = js_get response ''success'',
                custodianGuardianAddress = js_get response ''signer'',
                custodianGuardianSignature = js_get response ''signature''\<rparr>, w'))"

definition createAndExecuteRecoveryRequest ::
    "'w fetch_fn \<Rightarrow> RecoveryByCustodialGuardian \<Rightarrow> string \<Rightarrow> string list \<Rightarrow> int \<Rightarrow> string
     \<Rightarrow> string \<Rightarrow> ('w, jsval) async" where
  "createAndExecuteRecoveryRequest fetch this accountAddress newOwners newThreshold
       custodianGuardianAddress' custodianGuardianSignature' w =
     (case getNetworkConfig fetch (serviceEndpoint this) (chainId this) w of
        (Inl e, w1) \<Rightarrow> (Inl e, w1)
      | (Inr networkConfig, w1) \<Rightarrow>
          (let recoveryByGuardianService =
                 \<lparr>serviceEndpoint = serviceEndpoint this, chainId = chainId this,
                  recoveryModuleAddress = js_get networkConfig ''moduleAddress''\<rparr>
           in case createRecoveryRequest fetch recoveryByGuardianService accountAddress newOwners
                     newThreshold custodianGuardianAddress' custodianGuardianSignature' w1 of
             (Inl e, w2) \<Rightarrow> (Inl e, w2)
           | (Inr recoveryRequest, w2) \<Rightarrow>
               (case executeRecoveryRequest fetch recoveryByGuardianService
                       (js_get recoveryRequest ''id'') w2 of
                  (Inl e, w3) \<Rightarrow> (Inl e, w3)
                | (Inr success', w3) \<Rightarrow>
                    if \<not> success' then
                      (Inl (new_SafeRecoveryServiceSdkError (Code BAD_DATA)
                              (JStr ''executeRecoveryRequest failed'') None JUndefined
                              (JObj [(''recoveryRequestId'', js_get recoveryRequest ''id'')])), w3)
                    else (Inr recoveryRequest, w3))))"

section \<open>Scripted collaborators for concrete runs\<close>

text \<open>
  A world for running the model on concrete data: the canned replies the authority will give,
  in order, and the log of the requests made so far (method, URL and body).
\<close>

type_synonym scripted_world = "(string \<times> string \<times> string option) list \<times> (js_error + jsval) list"

definition scripted_fetch :: "scripted_world fetch_fn" where
  "scripted_fetch w url options =
     (let entry = (rq_method options, url, rq_body options) in
      case w of
        (log, []) \<Rightarrow>
          (Inl \<lparr>err_name = ''TypeError'', err_message = ''fetch failed''\<rparr>, (log @ [entry], []))
      | (log, reply # rest) \<Rightarrow> (reply, (log @ [entry], rest)))"

definition fixed_nonce :: "nat \<Rightarrow> 'w nonce_fn" where
  "fixed_nonce n w module_address rpcNode account = (Inr n, w)"

definition guardian_service :: RecoveryByGuardianService where
  "guardian_service =
     \<lparr>serviceEndpoint = ''https://s'', chainId = 1, recoveryModuleAddress = JStr ''0xM''\<rparr>"

definition custodial_service :: RecoveryByCustodialGuardian where
  "custodial_service =
     \<lparr>serviceEndpoint = ''https://s'', chainId = 1, siweDomain = ''d'', siweUri = ''u''\<rparr>"

definition raised_code :: "failure + 'a \<Rightarrow> code_slot option" where
  \<comment> \<open>the \<open>code\<close> of the SDK error an operation raised, if it raised one\<close>
  "raised_code x = (case x of Inl (SdkError e) \<Rightarrow> Some (code e) | _ \<Rightarrow> None)"

fun number_toString :: "js_number \<Rightarrow> string" where
  \<comment> \<open>how the stand-in below prints a chain id (decimal digits, as JavaScript prints an
      integer below \<open>10^21\<close>)\<close>
  "number_toString (Integral n) = int_toString n"
| "number_toString PlusInfinity = ''Infinity''"
| "number_toString MinusInfinity = ''-Infinity''"

definition siwe_library :: "SiweMessage \<Rightarrow> js_error + string" where
  \<comment> \<open>A stand-in for the SIWE library in concrete runs: like the library's validation it
      rejects an empty domain; otherwise it renders the fields, one per line.\<close>
  "siwe_library m =
     (if siwe_domain m = [] then
        Inl \<lparr>err_name = ''SiweError'', err_message = ''invalid domain''\<rparr>
      else
        Inr (siwe_domain m @ '' wants you to sign in with your Ethereum account:'' @ [CHR 0x0A]
             @ siwe_address m @ [CHR 0x0A, CHR 0x0A] @ siwe_statement m @ [CHR 0x0A, CHR 0x0A]
             @ ''URI: '' @ siwe_uri m @ [CHR 0x0A]
             @ ''Version: '' @ siwe_version m @ [CHR 0x0A]
             @ ''Chain ID: '' @ number_toString (siwe_chainId m) @ [CHR 0x0A]
             @ ''Nonce: '' @ siwe_nonce m @ [CHR 0x0A]
             @ ''Issued At: '' @ siwe_issuedAt m))"

definition checksum_address :: "string \<Rightarrow> js_error + string" where
  \<comment> \<open>A stand-in for \<^verbatim>\<open>ethers.getAddress\<close> in concrete runs: it accepts \<^verbatim>\<open>0x\<close> followed by
      forty hexadecimal digits and does not recompute the checksum.\<close>
  "checksum_address a =
     (if length a = 42 \<and> take 2 a = ''0x'' \<and> (\<forall>c \<in> set (drop 2 a). digit_value c \<noteq> None)
      then Inr a
      else Inl \<lparr>err_name = ''TypeError'', err_message = ''invalid address''\<rparr>)"

section \<open>Properties of the transport and of the loops\<close>

lemma nonce_BigInt_object:
  assumes "nonce_BigInt r = Inr r'"
  shows "\<exists>kvs. r' = JObj kvs"
  using assms
  by (cases r) (auto simp: nonce_BigInt_def nullish_def split: sum.splits)

lemma nonces_BigInt_objects:
  "nonces_BigInt rs = Inr rs' \<Longrightarrow> \<forall>r\<in>set rs'. \<exists>kvs. r = JObj kvs"
proof (induction rs arbitrary: rs')
  case Nil
  then show ?case by simp
next
  case (Cons r rs)
  then show ?case
    by (auto split: sum.splits dest: nonce_BigInt_object)
qed

lemma new_SafeRecoveryServiceSdkError_JStr:
  "new_SafeRecoveryServiceSdkError c (JStr s) cs en ctx =
     SdkError \<lparr>code = c, message = s, cause = cs, errno = en, error_context = ctx\<rparr>"
  by (simp add: new_SafeRecoveryServiceSdkError_def Error_message_def)

lemma check_response_Inr:
  "check_response url opts r = Inr r' \<Longrightarrow> r' = r \<and> js_in ''code'' r = Some False"
  unfolding check_response_def Let_def
  by (cases "js_in ''code'' r") (auto split: bool.splits if_splits option.splits)

lemma request_of_Inl:
  "request_of url body m hs = Inl f \<Longrightarrow> f = TypeError ''Cannot convert object to primitive value''"
  by (auto simp: request_of_def Let_def split: if_splits option.splits)

lemma sendHttpRequest_Inr:
  assumes "sendHttpRequest fetch url body m hs w = (Inr r, w')"
  shows "js_in ''code'' r = Some False"
proof (cases "request_of url body m hs")
  case (Inl e)
  with assms show ?thesis by (simp add: sendHttpRequest_def)
next
  case (Inr po)
  obtain params opts where po: "po = (params, opts)" by (cases po)
  obtain x w2 where f: "fetch w params opts = (x, w2)"
    by (cases "fetch w params opts")
  from assms Inr po f show ?thesis
    by (cases x) (auto simp: sendHttpRequest_def dest: check_response_Inr)
qed

lemma push_matching_filter:
  "\<forall>r\<in>set rs. \<not> nullish r \<Longrightarrow>
   \<forall>r\<in>set rs. loose_eq_status (js_get r ''status'') st \<noteq> None \<Longrightarrow>
   push_matching st rs acc =
     Inr (acc @ filter (\<lambda>r. loose_eq_status (js_get r ''status'') st = Some True) rs)"
  by (induction rs arbitrary: acc) (auto split: option.splits bool.splits)

lemma push_matching_throws:
  "\<forall>r\<in>set rs. \<not> nullish r \<Longrightarrow>
   \<exists>r\<in>set rs. loose_eq_status (js_get r ''status'') st = None \<Longrightarrow>
   push_matching st rs acc = Inl (TypeError ''Cannot convert object to primitive value'')"
  by (induction rs arbitrary: acc) (auto split: option.splits bool.splits)

lemma loose_eq_status_string:
  "typeof v = T_string \<Longrightarrow> loose_eq_status v st = Some (v = JStr (status_string st))"
  by (cases v) auto

lemma getRecoveryRequests_Inr:
  assumes "getRecoveryRequests fetch this a n w = (Inr res, w')"
  shows "\<exists>rs. res = JArr rs \<and> (\<forall>r\<in>set rs. \<exists>kvs. r = JObj kvs)"
proof (cases "toQuantity n")
  case (Inl e)
  with assms show ?thesis by (simp add: getRecoveryRequests_def)
next
  case (Inr q)
  let ?send = "sendHttpRequest fetch (serviceEndpoint this @ ''/v1/recoveries/fetchByAddress'')
            [(''account'', JStr a), (''chainId'', JNum (chainId this)), (''nonce'', JStr q)]
            get default_headers w"
  obtain x w2 where s: "?send = (x, w2)" by (cases ?send)
  show ?thesis
  proof (cases x)
    case (Inl e)
    with assms Inr s show ?thesis by (simp add: getRecoveryRequests_def)
  next
    case response: (Inr response)
    with s have "js_in ''code'' response = Some False" by (auto dest: sendHttpRequest_Inr)
    show ?thesis
    proof (cases "js_iterate response")
      case None
      with assms Inr s response show ?thesis by (simp add: getRecoveryRequests_def)
    next
      case (Some requests)
      with \<open>js_in ''code'' response = Some False\<close> obtain xs where xs: "response = JArr xs"
        by (cases response) auto
      show ?thesis
      proof (cases "nonces_BigInt requests")
        case (Inl e)
        with assms Inr s response Some show ?thesis by (simp add: getRecoveryRequests_def)
      next
        case conv: (Inr converted)
        with assms Inr s response Some xs have "res = JArr converted"
          by (simp add: getRecoveryRequests_def)
        with nonces_BigInt_objects[OF conv] show ?thesis by simp
      qed
    qed
  qed
qed

lemmas run_defs =
  getRecoveryRequests_def toQuantity_def hex_digits.simps dec_digits.simps sendHttpRequest_def
  request_of_def JSON_stringify_hex_def URLSearchParams_toString_def
  urlencode_def urlencode_byte_def is_alnum_def upper_digit_char_def digit_char_def
  scripted_fetch_def check_response_def Object_prototype_names_def Array_prototype_names_def
  array_own_keys_def int_toString_def nonce_BigInt_def nullish_def StringToBigInt_def trim_def
  is_ws_def parse_digits_def digit_value_def signed_integer_def default_headers_def
  guardian_service_def custodial_service_def fixed_nonce_def Let_def
  new_SafeRecoveryServiceSdkError_def Error_message_def

section \<open>The nonce-scoped status resolver\<close>

text \<open>
  Claim C1. Let the ledger report the recovery nonce \<open>n\<close> of the account. For the status
  EXECUTED or FINALIZED and \<open>n = 0\<close>, \<open>getRecoveryRequestsForLatestNonce\<close> returns the
  empty list and asks the authority nothing (the world stays as the ledger read left it).
  Otherwise it queries the authority through \<open>getRecoveryRequests\<close> at nonce \<open>n\<close> for
  PENDING and at \<open>n - 1\<close> for EXECUTED and FINALIZED; a failure of that query is passed on.
  When the query yields the array \<open>rs\<close> and every \<open>status\<close> field in it is a string, as
  the type of a recovery request says, the result is exactly the elements of \<open>rs\<close> whose
  \<open>status\<close> field is the requested status, in the order of \<open>rs\<close>. The code compares with
  \<^verbatim>\<open>==\<close>, so for statuses of any kind the result is the elements whose status is loosely
  equal to the requested one: besides the string itself this keeps an element whose status
  is an array that prints as the status name, such as \<^verbatim>\<open>["EXECUTED"]\<close>; and when the
  comparison of some element throws (its status is an object with a member \<^verbatim>\<open>toString\<close>,
  or an array holding one), the call raises that TypeError and returns nothing.
\<close>

theorem getRecoveryRequestsForLatestNonce_resolves:
  assumes "nonceOf w (recoveryModuleAddress this) rpcNode accountAddress = (Inr n, w1)"
  shows "(status \<noteq> PENDING \<and> n = 0 \<longrightarrow>
            getRecoveryRequestsForLatestNonce fetch nonceOf this rpcNode accountAddress status w
              = (Inr [], w1))
       \<and> (\<not> (status \<noteq> PENDING \<and> n = 0) \<longrightarrow>
            (case getRecoveryRequests fetch this accountAddress
                    (if status = PENDING then int n else int n - 1) w1 of
               (Inl e, w2) \<Rightarrow>
                 getRecoveryRequestsForLatestNonce fetch nonceOf this rpcNode accountAddress status w
                   = (Inl e, w2)
             | (Inr fetched, w2) \<Rightarrow>
                 (\<exists>rs. fetched = JArr rs
                    \<and> getRecoveryRequestsForLatestNonce fetch nonceOf this rpcNode accountAddress
                          status w
                      = (if \<forall>r\<in>set rs. loose_eq_status (js_get r ''status'') status \<noteq> None
                         then Inr (filter (\<lambda>r. loose_eq_status (js_get r ''status'') status
                                                 = Some True) rs)
                         else Inl (TypeError ''Cannot convert object to primitive value''), w2)
                    \<and> ((\<forall>r\<in>set rs. typeof (js_get r ''status'') = T_string) \<longrightarrow>
                         getRecoveryRequestsForLatestNonce fetch nonceOf this rpcNode
                             accountAddress status w
                           = (Inr (filter (\<lambda>r. js_get r ''status'' = JStr (status_string status))
                                     rs), w2)))))"
proof (intro conjI impI)
  assume "status \<noteq> PENDING \<and> n = 0"
  with assms show "getRecoveryRequestsForLatestNonce fetch nonceOf this rpcNode accountAddress status w
              = (Inr [], w1)"
    by (simp add: getRecoveryRequestsForLatestNonce_def)
next
  assume no: "\<not> (status \<noteq> PENDING \<and> n = 0)"
  let ?m = "if status = PENDING then int n else int n - 1"
  let ?run = "getRecoveryRequestsForLatestNonce fetch nonceOf this rpcNode accountAddress status w"
  obtain res w2 where g: "getRecoveryRequests fetch this accountAddress ?m w1 = (res, w2)"
    by (cases "getRecoveryRequests fetch this accountAddress ?m w1")
  have unfold: "?run
      = (case res of Inl e \<Rightarrow> (Inl e, w2)
         | Inr result \<Rightarrow> (case js_iterate result of
                     None \<Rightarrow> (Inl (TypeError ''result is not iterable''), w2)
                   | Some requests \<Rightarrow> (push_matching status requests [], w2)))"
  proof (cases "status = PENDING")
    case True
    from g True have g': "getRecoveryRequests fetch this accountAddress (int n) w1 = (res, w2)"
      by simp
    show ?thesis
      unfolding getRecoveryRequestsForLatestNonce_def assms True
      by (simp add: g' split: sum.split)
  next
    case False
    with no have n: "n \<noteq> 0" by simp
    from g False have g': "getRecoveryRequests fetch this accountAddress (int n - 1) w1 = (res, w2)"
      by simp
    show ?thesis
      unfolding getRecoveryRequestsForLatestNonce_def assms
      by (simp add: g' n False split: sum.split)
  qed
  show "(case getRecoveryRequests fetch this accountAddress ?m w1 of
               (Inl e, w2) \<Rightarrow> ?run = (Inl e, w2)
             | (Inr fetched, w2) \<Rightarrow>
                 (\<exists>rs. fetched = JArr rs
                    \<and> ?run
                      = (if \<forall>r\<in>set rs. loose_eq_status (js_get r ''status'') status \<noteq> None
                         then Inr (filter (\<lambda>r. loose_eq_status (js_get r ''status'') status
                                                 = Some True) rs)
                         else Inl (TypeError ''Cannot convert object to primitive value''), w2)
                    \<and> ((\<forall>r\<in>set rs. typeof (js_get r ''status'') = T_string) \<longrightarrow>
                         ?run
                           = (Inr (filter (\<lambda>r. js_get r ''status'' = JStr (status_string status))
                                     rs), w2))))"
  proof (cases res)
    case (Inl e)
    show ?thesis unfolding g unfold Inl by simp
  next
    case (Inr fetched)
    with g have "getRecoveryRequests fetch this accountAddress ?m w1 = (Inr fetched, w2)"
      by simp
    from getRecoveryRequests_Inr[OF this] obtain rs where
        rs: "fetched = JArr rs" and objs: "\<forall>r\<in>set rs. \<exists>kvs. r = JObj kvs"
      by blast
    from objs have nn: "\<forall>r\<in>set rs. \<not> nullish r" by (auto simp: nullish_def)
    have run: "?run = (push_matching status rs [], w2)"
      unfolding unfold Inr rs by simp
    have general: "?run
        = (if \<forall>r\<in>set rs. loose_eq_status (js_get r ''status'') status \<noteq> None
           then Inr (filter (\<lambda>r. loose_eq_status (js_get r ''status'') status = Some True) rs)
           else Inl (TypeError ''Cannot convert object to primitive value''), w2)"
    proof (cases "\<forall>r\<in>set rs. loose_eq_status (js_get r ''status'') status \<noteq> None")
      case True
      from push_matching_filter[OF nn True, of "[]"] True show ?thesis
        unfolding run by simp
    next
      case False
      then have "\<exists>r\<in>set rs. loose_eq_status (js_get r ''status'') status = None" by simp
      from push_matching_throws[OF nn this, of "[]"] False show ?thesis
        unfolding run by simp
    qed
    have typed: "?run = (Inr (filter (\<lambda>r. js_get r ''status'' = JStr (status_string status)) rs), w2)"
      if strings: "\<forall>r\<in>set rs. typeof (js_get r ''status'') = T_string"
    proof -
      from strings have eq: "\<forall>r\<in>set rs. loose_eq_status (js_get r ''status'') status
          = Some (js_get r ''status'' = JStr (status_string status))"
        by (simp add: loose_eq_status_string)
      then have all: "\<forall>r\<in>set rs. loose_eq_status (js_get r ''status'') status \<noteq> None"
        by simp
      from eq have "filter (\<lambda>r. loose_eq_status (js_get r ''status'') status = Some True) rs
          = filter (\<lambda>r. js_get r ''status'' = JStr (status_string status)) rs"
        by (intro filter_cong) auto
      with general all show ?thesis by simp
    qed
    from general typed show ?thesis unfolding g Inr rs by simp
  qed
qed

theorem getRecoveryRequestsForLatestNonce_resolves_witness:
  "getRecoveryRequestsForLatestNonce scripted_fetch (fixed_nonce 1) guardian_service ''rpc'' ''0xA''
     EXECUTED
     ([], [Inr (JArr [JObj [(''nonce'', JStr ''0x0''), (''status'', JStr ''EXECUTED'')],
                      JObj [(''nonce'', JStr ''0x0''), (''status'', JStr ''PENDING'')],
                      JObj [(''nonce'', JStr ''0x0''), (''status'', JArr [JStr ''EXECUTED''])]])])
   = (Inr [JObj [(''nonce'', JBigInt 0), (''status'', JStr ''EXECUTED'')],
           JObj [(''nonce'', JBigInt 0), (''status'', JArr [JStr ''EXECUTED''])]],
      ([(''GET'', ''https://s/v1/recoveries/fetchByAddress?account=0xA&chainId=1&nonce=0x0'', None)],
       []))"
proof -
  let ?w = "([], [Inr (JArr [JObj [(''nonce'', JStr ''0x0''), (''status'', JStr ''EXECUTED'')],
                      JObj [(''nonce'', JStr ''0x0''), (''status'', JStr ''PENDING'')],
                      JObj [(''nonce'', JStr ''0x0''), (''status'', JArr [JStr ''EXECUTED''])]])])"
  have ledger: "fixed_nonce 1 ?w (recoveryModuleAddress guardian_service) ''rpc'' ''0xA'' = (Inr 1, ?w)"
    by (simp add: fixed_nonce_def)
  have fetched: "getRecoveryRequests scripted_fetch guardian_service ''0xA'' 0 ?w
      = (Inr (JArr [JObj [(''nonce'', JBigInt 0), (''status'', JStr ''EXECUTED'')],
                    JObj [(''nonce'', JBigInt 0), (''status'', JStr ''PENDING'')],
                    JObj [(''nonce'', JBigInt 0), (''status'', JArr [JStr ''EXECUTED''])]]),
         ([(''GET'', ''https://s/v1/recoveries/fetchByAddress?account=0xA&chainId=1&nonce=0x0'', None)],
          []))"
    by (simp add: run_defs)
  have kept: "loose_eq_status (JStr ''EXECUTED'') EXECUTED = Some True"
    and dropped: "loose_eq_status (JStr ''PENDING'') EXECUTED = Some False"
    and converted: "loose_eq_status (JArr [JStr ''EXECUTED'']) EXECUTED = Some True"
    by simp_all
  from getRecoveryRequestsForLatestNonce_resolves
         [of "fixed_nonce 1" ?w guardian_service "''rpc''" "''0xA''" 1 ?w EXECUTED scripted_fetch,
          OF ledger]
       fetched
  show ?thesis by (simp add: kept dropped converted del: loose_eq_status.simps not_None_eq)
qed

section \<open>At most one executed or finalized request per nonce\<close>

lemma single_or_BAD_DATA:
  "(if length rs = 0 then (Inr JNull, w')
    else if length rs = 1 then (Inr (rs ! 0), w')
    else (Inl (new_SafeRecoveryServiceSdkError (Code BAD_DATA) (JStr m) c en ctx), w')) = out
   \<Longrightarrow> (rs = [] \<longrightarrow> out = (Inr JNull, w'))
     \<and> (\<forall>r. rs = [r] \<longrightarrow> out = (Inr r, w'))
     \<and> (1 < length rs \<longrightarrow> (\<exists>err. out = (Inl (SdkError err), w') \<and> code err = Code BAD_DATA))"
  by (cases rs) (auto simp: new_SafeRecoveryServiceSdkError_JStr)

text \<open>
  Claim C2. Whenever the resolver yields the list \<open>recoveryRequests\<close> for EXECUTED,
  \<open>getExecutedRecoveryRequestForLatestNonce\<close> returns \<^verbatim>\<open>null\<close> for the empty list, the
  request itself for a list of one, and raises a \<open>SafeRecoveryServiceSdkError\<close> with code
  \<open>BAD_DATA\<close> for a longer list; \<open>getFinalizedRecoveryRequestForLatestNonce\<close> does the same
  with the resolver's list for FINALIZED.
\<close>

theorem at_most_one_per_nonce:
  "(\<forall>recoveryRequests w'.
      getRecoveryRequestsForLatestNonce fetch nonceOf this rpcNode accountAddress EXECUTED w
        = (Inr recoveryRequests, w') \<longrightarrow>
      (recoveryRequests = [] \<longrightarrow>
         getExecutedRecoveryRequestForLatestNonce fetch nonceOf this rpcNode accountAddress w
           = (Inr JNull, w'))
      \<and> (\<forall>r. recoveryRequests = [r] \<longrightarrow>
         getExecutedRecoveryRequestForLatestNonce fetch nonceOf this rpcNode accountAddress w
           = (Inr r, w'))
      \<and> (1 < length recoveryRequests \<longrightarrow>
         (\<exists>err. getExecutedRecoveryRequestForLatestNonce fetch nonceOf this rpcNode accountAddress w
                  = (Inl (SdkError err), w') \<and> code err = Code BAD_DATA)))
   \<and> (\<forall>recoveryRequests w'.
      getRecoveryRequestsForLatestNonce fetch nonceOf this rpcNode accountAddress FINALIZED w
        = (Inr recoveryRequests, w') \<longrightarrow>
      (recoveryRequests = [] \<longrightarrow>
         getFinalizedRecoveryRequestForLatestNonce fetch nonceOf this rpcNode accountAddress w
           = (Inr JNull, w'))
      \<and> (\<forall>r. recoveryRequests = [r] \<longrightarrow>
         getFinalizedRecoveryRequestForLatestNonce fetch nonceOf this rpcNode accountAddress w
           = (Inr r, w'))
      \<and> (1 < length recoveryRequests \<longrightarrow>
         (\<exists>err. getFinalizedRecoveryRequestForLatestNonce fetch nonceOf this rpcNode accountAddress w
                  = (Inl (SdkError err), w') \<and> code err = Code BAD_DATA)))"
proof (rule conjI; intro allI impI)
  fix recoveryRequests w'
  assume r: "getRecoveryRequestsForLatestNonce fetch nonceOf this rpcNode accountAddress EXECUTED w
        = (Inr recoveryRequests, w')"
  have "(if length recoveryRequests = 0 then (Inr JNull, w')
         else if length recoveryRequests = 1 then (Inr (recoveryRequests ! 0), w')
         else (Inl (new_SafeRecoveryServiceSdkError (Code BAD_DATA)
                    (JStr ''getExecutedRecoveryRequestsForLatestNonce failed'')
                    (Some (ensureError (JStr ''there can be only one EXECUTED recovery per nonce'')))
                    JUndefined JUndefined), w'))
        = getExecutedRecoveryRequestForLatestNonce fetch nonceOf this rpcNode accountAddress w"
    unfolding getExecutedRecoveryRequestForLatestNonce_def r by simp
  from single_or_BAD_DATA[OF this]
  show "(recoveryRequests = [] \<longrightarrow>
         getExecutedRecoveryRequestForLatestNonce fetch nonceOf this rpcNode accountAddress w
           = (Inr JNull, w'))
      \<and> (\<forall>r. recoveryRequests = [r] \<longrightarrow>
         getExecutedRecoveryRequestForLatestNonce fetch nonceOf this rpcNode accountAddress w
           = (Inr r, w'))
      \<and> (1 < length recoveryRequests \<longrightarrow>
         (\<exists>err. getExecutedRecoveryRequestForLatestNonce fetch nonceOf this rpcNode accountAddress w
                  = (Inl (SdkError err), w') \<and> code err = Code BAD_DATA))" .
next
  fix recoveryRequests w'
  assume r: "getRecoveryRequestsForLatestNonce fetch nonceOf this rpcNode accountAddress FINALIZED w
        = (Inr recoveryRequests, w')"
  have "(if length recoveryRequests = 0 then (Inr JNull, w')
         else if length recoveryRequests = 1 then (Inr (recoveryRequests ! 0), w')
         else (Inl (new_SafeRecoveryServiceSdkError (Code BAD_DATA)
                    (JStr ''getFinalizedRecoveryRequestsForLatestNonce failed'')
                    (Some (ensureError (JStr ''there can be only one FINALIZED recovery per nonce'')))
                    JUndefined JUndefined), w'))
        = getFinalizedRecoveryRequestForLatestNonce fetch nonceOf this rpcNode accountAddress w"
    unfolding getFinalizedRecoveryRequestForLatestNonce_def r by simp
  from single_or_BAD_DATA[OF this]
  show "(recoveryRequests = [] \<longrightarrow>
         getFinalizedRecoveryRequestForLatestNonce fetch nonceOf this rpcNode accountAddress w
           = (Inr JNull, w'))
      \<and> (\<forall>r. recoveryRequests = [r] \<longrightarrow>
         getFinalizedRecoveryRequestForLatestNonce fetch nonceOf this rpcNode accountAddress w
           = (Inr r, w'))
      \<and> (1 < length recoveryRequests \<longrightarrow>
         (\<exists>err. getFinalizedRecoveryRequestForLatestNonce fetch nonceOf this rpcNode accountAddress w
                  = (Inl (SdkError err), w') \<and> code err = Code BAD_DATA))" .
qed

theorem at_most_one_per_nonce_witness:
  "getExecutedRecoveryRequestForLatestNonce scripted_fetch (fixed_nonce 0) guardian_service
       ''rpc'' ''0xA'' ([], [])
     = (Inr JNull, ([], []))
   \<and> fst (getExecutedRecoveryRequestForLatestNonce scripted_fetch (fixed_nonce 1) guardian_service
       ''rpc'' ''0xA''
       ([], [Inr (JArr [JObj [(''id'', JStr ''a''), (''nonce'', JStr ''0x0''), (''status'', JStr ''EXECUTED'')]])]))
     = Inr (JObj [(''id'', JStr ''a''), (''nonce'', JBigInt 0), (''status'', JStr ''EXECUTED'')])
   \<and> (\<exists>err. fst (getExecutedRecoveryRequestForLatestNonce scripted_fetch (fixed_nonce 1)
       guardian_service ''rpc'' ''0xA''
       ([], [Inr (JArr [JObj [(''id'', JStr ''a''), (''nonce'', JStr ''0x0''), (''status'', JStr ''EXECUTED'')],
                        JObj [(''id'', JStr ''b''), (''nonce'', JStr ''0x0''), (''status'', JStr ''EXECUTED'')]])]))
       = Inl (SdkError err) \<and> code err = Code BAD_DATA)
   \<and> (\<exists>err. fst (getFinalizedRecoveryRequestForLatestNonce scripted_fetch (fixed_nonce 1)
       guardian_service ''rpc'' ''0xA''
       ([], [Inr (JArr [JObj [(''id'', JStr ''a''), (''nonce'', JStr ''0x0''), (''status'', JStr ''FINALIZED'')],
                        JObj [(''id'', JStr ''b''), (''nonce'', JStr ''0x0''), (''status'', JStr ''FINALIZED'')]])]))
       = Inl (SdkError err) \<and> code err = Code BAD_DATA)"
proof -
  let ?log = "[(''GET'', ''https://s/v1/recoveries/fetchByAddress?account=0xA&chainId=1&nonce=0x0'', None)]"
  let ?w1 = "([], [Inr (JArr [JObj [(''id'', JStr ''a''), (''nonce'', JStr ''0x0''), (''status'', JStr ''EXECUTED'')]])])"
  let ?w2 = "([], [Inr (JArr [JObj [(''id'', JStr ''a''), (''nonce'', JStr ''0x0''), (''status'', JStr ''EXECUTED'')],
                        JObj [(''id'', JStr ''b''), (''nonce'', JStr ''0x0''), (''status'', JStr ''EXECUTED'')]])])"
  let ?w3 = "([], [Inr (JArr [JObj [(''id'', JStr ''a''), (''nonce'', JStr ''0x0''), (''status'', JStr ''FINALIZED'')],
                        JObj [(''id'', JStr ''b''), (''nonce'', JStr ''0x0''), (''status'', JStr ''FINALIZED'')]])])"
  have r0: "getRecoveryRequestsForLatestNonce scripted_fetch (fixed_nonce 0) guardian_service
       ''rpc'' ''0xA'' EXECUTED ([], []) = (Inr [], ([], []))"
    by (simp add: getRecoveryRequestsForLatestNonce_def run_defs)
  have r1: "getRecoveryRequestsForLatestNonce scripted_fetch (fixed_nonce 1) guardian_service
       ''rpc'' ''0xA'' EXECUTED ?w1
     = (Inr [JObj [(''id'', JStr ''a''), (''nonce'', JBigInt 0), (''status'', JStr ''EXECUTED'')]],
        (?log, []))"
    by (simp add: getRecoveryRequestsForLatestNonce_def run_defs)
  have r2: "getRecoveryRequestsForLatestNonce scripted_fetch (fixed_nonce 1) guardian_service
       ''rpc'' ''0xA'' EXECUTED ?w2
     = (Inr [JObj [(''id'', JStr ''a''), (''nonce'', JBigInt 0), (''status'', JStr ''EXECUTED'')],
             JObj [(''id'', JStr ''b''), (''nonce'', JBigInt 0), (''status'', JStr ''EXECUTED'')]],
        (?log, []))"
    by (simp add: getRecoveryRequestsForLatestNonce_def run_defs)
  have r3: "getRecoveryRequestsForLatestNonce scripted_fetch (fixed_nonce 1) guardian_service
       ''rpc'' ''0xA'' FINALIZED ?w3
     = (Inr [JObj [(''id'', JStr ''a''), (''nonce'', JBigInt 0), (''status'', JStr ''FINALIZED'')],
             JObj [(''id'', JStr ''b''), (''nonce'', JBigInt 0), (''status'', JStr ''FINALIZED'')]],
        (?log, []))"
    by (simp add: getRecoveryRequestsForLatestNonce_def run_defs)
  have c0: "getExecutedRecoveryRequestForLatestNonce scripted_fetch (fixed_nonce 0) guardian_service
       ''rpc'' ''0xA'' ([], []) = (Inr JNull, ([], []))"
    using at_most_one_per_nonce
            [of scripted_fetch "fixed_nonce 0" guardian_service "''rpc''" "''0xA''" "([], [])"]
    unfolding r0 by simp
  have c1: "fst (getExecutedRecoveryRequestForLatestNonce scripted_fetch (fixed_nonce 1)
       guardian_service ''rpc'' ''0xA'' ?w1)
     = Inr (JObj [(''id'', JStr ''a''), (''nonce'', JBigInt 0), (''status'', JStr ''EXECUTED'')])"
    using at_most_one_per_nonce
            [of scripted_fetch "fixed_nonce 1" guardian_service "''rpc''" "''0xA''" ?w1]
    unfolding r1 by simp
  have c2: "\<exists>err. fst (getExecutedRecoveryRequestForLatestNonce scripted_fetch (fixed_nonce 1)
       guardian_service ''rpc'' ''0xA'' ?w2) = Inl (SdkError err) \<and> code err = Code BAD_DATA"
    using at_most_one_per_nonce
            [of scripted_fetch "fixed_nonce 1" guardian_service "''rpc''" "''0xA''" ?w2]
    unfolding r2 by auto
  have c3: "\<exists>err. fst (getFinalizedRecoveryRequestForLatestNonce scripted_fetch (fixed_nonce 1)
       guardian_service ''rpc'' ''0xA'' ?w3) = Inl (SdkError err) \<and> code err = Code BAD_DATA"
    using at_most_one_per_nonce
            [of scripted_fetch "fixed_nonce 1" guardian_service "''rpc''" "''0xA''" ?w3]
    unfolding r3 by auto
  from c0 c1 c2 c3 show ?thesis by blast
qed

section \<open>The two copies of RecoveryByGuardianService\<close>

lemma dup_nonce_BigInt_eq: "dup_nonce_BigInt = nonce_BigInt"
  by (rule ext) (simp add: dup_nonce_BigInt_def nonce_BigInt_def)

lemma dup_nonces_BigInt_eq: "dup_nonces_BigInt = nonces_BigInt"
proof (rule ext)
  fix requests
  show "dup_nonces_BigInt requests = nonces_BigInt requests"
    by (induction requests) (simp_all add: dup_nonce_BigInt_eq split: sum.splits)
qed

lemma dup_push_matching_eq: "dup_push_matching = push_matching"
proof (intro ext)
  fix status requests acc
  show "dup_push_matching status requests acc = push_matching status requests acc"
    by (induction requests arbitrary: acc) (simp_all split: option.splits bool.splits)
qed

lemma dup_getRecoveryRequests_eq: "dup_getRecoveryRequests = getRecoveryRequests"
  unfolding dup_getRecoveryRequests_def getRecoveryRequests_def dup_nonces_BigInt_eq
  by (rule refl)

lemma dup_getRecoveryRequestsForLatestNonce_eq:
  "dup_getRecoveryRequestsForLatestNonce = getRecoveryRequestsForLatestNonce"
  unfolding dup_getRecoveryRequestsForLatestNonce_def getRecoveryRequestsForLatestNonce_def
    dup_getRecoveryRequests_eq dup_push_matching_eq
  by (rule refl)

text \<open>
  Claim C10. Each method of the undocumented copy of \<open>RecoveryByGuardianService\<close> returns,
  for every input and every behaviour of the authority and of the ledger, the very result of
  the same-named method of the documented class: the same value and next world, or the same
  error.
\<close>

theorem duplicate_service_equal:
  "dup_getPendingRecoveryRequestsForLatestNonce fetch nonceOf this rpcNode accountAddress w
     = getPendingRecoveryRequestsForLatestNonce fetch nonceOf this rpcNode accountAddress w
   \<and> dup_getExecutedRecoveryRequestForLatestNonce fetch nonceOf this rpcNode accountAddress w
     = getExecutedRecoveryRequestForLatestNonce fetch nonceOf this rpcNode accountAddress w
   \<and> dup_getFinalizedRecoveryRequestForLatestNonce fetch nonceOf this rpcNode accountAddress w
     = getFinalizedRecoveryRequestForLatestNonce fetch nonceOf this rpcNode accountAddress w
   \<and> dup_getRecoveryRequestsForLatestNonce fetch nonceOf this rpcNode accountAddress status w
     = getRecoveryRequestsForLatestNonce fetch nonceOf this rpcNode accountAddress status w
   \<and> dup_getRecoveryRequests fetch this accountAddress recoveryNonce w
     = getRecoveryRequests fetch this accountAddress recoveryNonce w
   \<and> dup_createRecoveryRequest fetch this accountAddress newOwners newThreshold guardianAddress
       guardianSignature w
     = createRecoveryRequest fetch this accountAddress newOwners newThreshold guardianAddress
       guardianSignature w
   \<and> dup_submitGuardianSignatureForRecoveryRequest fetch this id' guardianAddress
       guardianSignature w
     = submitGuardianSignatureForRecoveryRequest fetch this id' guardianAddress guardianSignature w
   \<and> dup_executeRecoveryRequest fetch this id' w = executeRecoveryRequest fetch this id' w
   \<and> dup_finalizeRecoveryRequest fetch this id' w = finalizeRecoveryRequest fetch this id' w"
proof (intro conjI)
  show "dup_getPendingRecoveryRequestsForLatestNonce fetch nonceOf this rpcNode accountAddress w
     = getPendingRecoveryRequestsForLatestNonce fetch nonceOf this rpcNode accountAddress w"
    unfolding dup_getPendingRecoveryRequestsForLatestNonce_def
      getPendingRecoveryRequestsForLatestNonce_def dup_getRecoveryRequestsForLatestNonce_eq
    by (rule refl)
  show "dup_getExecutedRecoveryRequestForLatestNonce fetch nonceOf this rpcNode accountAddress w
     = getExecutedRecoveryRequestForLatestNonce fetch nonceOf this rpcNode accountAddress w"
    unfolding dup_getExecutedRecoveryRequestForLatestNonce_def
      getExecutedRecoveryRequestForLatestNonce_def dup_getRecoveryRequestsForLatestNonce_eq
    by (rule refl)
  show "dup_getFinalizedRecoveryRequestForLatestNonce fetch nonceOf this rpcNode accountAddress w
     = getFinalizedRecoveryRequestForLatestNonce fetch nonceOf this rpcNode accountAddress w"
    unfolding dup_getFinalizedRecoveryRequestForLatestNonce_def
      getFinalizedRecoveryRequestForLatestNonce_def dup_getRecoveryRequestsForLatestNonce_eq
    by (rule refl)
  show "dup_getRecoveryRequestsForLatestNonce fetch nonceOf this rpcNode accountAddress status w
     = getRecoveryRequestsForLatestNonce fetch nonceOf this rpcNode accountAddress status w"
    by (simp add: dup_getRecoveryRequestsForLatestNonce_eq)
  show "dup_getRecoveryRequests fetch this accountAddress recoveryNonce w
     = getRecoveryRequests fetch this accountAddress recoveryNonce w"
    by (simp add: dup_getRecoveryRequests_eq)
  show "dup_createRecoveryRequest fetch this accountAddress newOwners newThreshold guardianAddress
       guardianSignature w
     = createRecoveryRequest fetch this accountAddress newOwners newThreshold guardianAddress
       guardianSignature w"
    unfolding dup_createRecoveryRequest_def createRecoveryRequest_def dup_nonce_BigInt_eq
    by (rule refl)
  show "dup_submitGuardianSignatureForRecoveryRequest fetch this id' guardianAddress
       guardianSignature w
     = submitGuardianSignatureForRecoveryRequest fetch this id' guardianAddress guardianSignature w"
    unfolding dup_submitGuardianSignatureForRecoveryRequest_def
      submitGuardianSignatureForRecoveryRequest_def
    by (rule refl)
  show "dup_executeRecoveryRequest fetch this id' w = executeRecoveryRequest fetch this id' w"
    unfolding dup_executeRecoveryRequest_def executeRecoveryRequest_def by (rule refl)
  show "dup_finalizeRecoveryRequest fetch this id' w = finalizeRecoveryRequest fetch this id' w"
    unfolding dup_finalizeRecoveryRequest_def finalizeRecoveryRequest_def by (rule refl)
qed

theorem duplicate_service_equal_witness:
  "fst (dup_executeRecoveryRequest scripted_fetch guardian_service (JStr ''id1'')
          ([], [Inr (JObj [(''success'', JBool False)])])) = Inr False
   \<and> fst (dup_getRecoveryRequestsForLatestNonce scripted_fetch (fixed_nonce 3) guardian_service
          ''rpc'' ''0xA'' PENDING
          ([], [Inr (JArr [JObj [(''nonce'', JStr ''0x3''), (''status'', JStr ''PENDING'')]])]))
       = Inr [JObj [(''nonce'', JBigInt 3), (''status'', JStr ''PENDING'')]]"
proof -
  let ?w1 = "([], [Inr (JObj [(''success'', JBool False)])])"
  let ?w2 = "([], [Inr (JArr [JObj [(''nonce'', JStr ''0x3''), (''status'', JStr ''PENDING'')]])])"
  have e: "fst (executeRecoveryRequest scripted_fetch guardian_service (JStr ''id1'') ?w1) = Inr False"
    by (simp add: executeRecoveryRequest_def run_defs)
  have r: "fst (getRecoveryRequestsForLatestNonce scripted_fetch (fixed_nonce 3) guardian_service
          ''rpc'' ''0xA'' PENDING ?w2)
       = Inr [JObj [(''nonce'', JBigInt 3), (''status'', JStr ''PENDING'')]]"
    by (simp add: getRecoveryRequestsForLatestNonce_def run_defs)
  from duplicate_service_equal
         [of scripted_fetch "fixed_nonce 3" guardian_service "''rpc''" "''0xA''" ?w1]
       e
  have c1: "fst (dup_executeRecoveryRequest scripted_fetch guardian_service (JStr ''id1'') ?w1)
      = Inr False"
    by simp
  from duplicate_service_equal
         [of scripted_fetch "fixed_nonce 3" guardian_service "''rpc''" "''0xA''" ?w2 PENDING]
       r
  have c2: "fst (dup_getRecoveryRequestsForLatestNonce scripted_fetch (fixed_nonce 3)
          guardian_service ''rpc'' ''0xA'' PENDING ?w2)
       = Inr [JObj [(''nonce'', JBigInt 3), (''status'', JStr ''PENDING'')]]"
    by simp
  from c1 c2 show ?thesis by simp
qed

section \<open>Create and execute\<close>

lemma createAndExecuteRecoveryRequest_steps:
  assumes cfg: "getNetworkConfig fetch (serviceEndpoint this) (chainId this) w = (x1, w1)"
  shows "createAndExecuteRecoveryRequest fetch this accountAddress newOwners newThreshold ga gs w =
     (case x1 of
        Inl e \<Rightarrow> (Inl e, w1)
      | Inr networkConfig \<Rightarrow>
          (case createRecoveryRequest fetch
                  \<lparr>serviceEndpoint = serviceEndpoint this, chainId = chainId this,
                   recoveryModuleAddress = js_get networkConfig ''moduleAddress''\<rparr>
                  accountAddress newOwners newThreshold ga gs w1 of
             (Inl e, w2) \<Rightarrow> (Inl e, w2)
           | (Inr recoveryRequest, w2) \<Rightarrow>
               (case executeRecoveryRequest fetch
                       \<lparr>serviceEndpoint = serviceEndpoint this, chainId = chainId this,
                        recoveryModuleAddress = js_get networkConfig ''moduleAddress''\<rparr>
                       (js_get recoveryRequest ''id'') w2 of
                  (Inl e, w3) \<Rightarrow> (Inl e, w3)
                | (Inr ok, w3) \<Rightarrow>
                    if ok then (Inr recoveryRequest, w3)
                    else (Inl (new_SafeRecoveryServiceSdkError (Code BAD_DATA)
                              (JStr ''executeRecoveryRequest failed'') None JUndefined
                              (JObj [(''recoveryRequestId'', js_get recoveryRequest ''id'')])), w3))))"
  unfolding createAndExecuteRecoveryRequest_def cfg Let_def
  by (simp split: sum.splits prod.splits)

text \<open>
  Claim C4. \<open>createAndExecuteRecoveryRequest\<close> returns a recovery request only if that is
  the request \<open>createRecoveryRequest\<close> created and the following \<open>executeRecoveryRequest\<close>
  on its id returned \<^verbatim>\<open>true\<close>; and whenever the network configuration was read, the request
  was created and \<open>executeRecoveryRequest\<close> returned \<^verbatim>\<open>false\<close>, it raises a
  \<open>SafeRecoveryServiceSdkError\<close> (code \<open>BAD_DATA\<close>, message
  \<^verbatim>\<open>executeRecoveryRequest failed\<close>) instead of returning the request.
\<close>

theorem createAndExecuteRecoveryRequest_fails_loudly:
  "(\<forall>recoveryRequest w'.
      createAndExecuteRecoveryRequest fetch this accountAddress newOwners newThreshold ga gs w
        = (Inr recoveryRequest, w') \<longrightarrow>
      (\<exists>networkConfig w1 w2.
          getNetworkConfig fetch (serviceEndpoint this) (chainId this) w = (Inr networkConfig, w1)
        \<and> createRecoveryRequest fetch
              \<lparr>serviceEndpoint = serviceEndpoint this, chainId = chainId this,
               recoveryModuleAddress = js_get networkConfig ''moduleAddress''\<rparr>
              accountAddress newOwners newThreshold ga gs w1 = (Inr recoveryRequest, w2)
        \<and> executeRecoveryRequest fetch
              \<lparr>serviceEndpoint = serviceEndpoint this, chainId = chainId this,
               recoveryModuleAddress = js_get networkConfig ''moduleAddress''\<rparr>
              (js_get recoveryRequest ''id'') w2 = (Inr True, w')))
   \<and> (\<forall>networkConfig w1 recoveryRequest w2 w3.
        getNetworkConfig fetch (serviceEndpoint this) (chainId this) w = (Inr networkConfig, w1)
        \<and> createRecoveryRequest fetch
              \<lparr>serviceEndpoint = serviceEndpoint this, chainId = chainId this,
               recoveryModuleAddress = js_get networkConfig ''moduleAddress''\<rparr>
              accountAddress newOwners newThreshold ga gs w1 = (Inr recoveryRequest, w2)
        \<and> executeRecoveryRequest fetch
              \<lparr>serviceEndpoint = serviceEndpoint this, chainId = chainId this,
               recoveryModuleAddress = js_get networkConfig ''moduleAddress''\<rparr>
              (js_get recoveryRequest ''id'') w2 = (Inr False, w3)
        \<longrightarrow>
        (\<exists>err. createAndExecuteRecoveryRequest fetch this accountAddress newOwners newThreshold
                  ga gs w = (Inl (SdkError err), w3)
               \<and> code err = Code BAD_DATA \<and> message err = ''executeRecoveryRequest failed''))"
proof (rule conjI; intro allI impI)
  fix recoveryRequest w'
  assume h: "createAndExecuteRecoveryRequest fetch this accountAddress newOwners newThreshold ga gs w
        = (Inr recoveryRequest, w')"
  obtain x1 w1 where cfg: "getNetworkConfig fetch (serviceEndpoint this) (chainId this) w = (x1, w1)"
    by (cases "getNetworkConfig fetch (serviceEndpoint this) (chainId this) w")
  note steps = createAndExecuteRecoveryRequest_steps[OF cfg, of accountAddress newOwners newThreshold ga gs]
  show "\<exists>networkConfig w1 w2.
          getNetworkConfig fetch (serviceEndpoint this) (chainId this) w = (Inr networkConfig, w1)
        \<and> createRecoveryRequest fetch
              \<lparr>serviceEndpoint = serviceEndpoint this, chainId = chainId this,
               recoveryModuleAddress = js_get networkConfig ''moduleAddress''\<rparr>
              accountAddress newOwners newThreshold ga gs w1 = (Inr recoveryRequest, w2)
        \<and> executeRecoveryRequest fetch
              \<lparr>serviceEndpoint = serviceEndpoint this, chainId = chainId this,
               recoveryModuleAddress = js_get networkConfig ''moduleAddress''\<rparr>
              (js_get recoveryRequest ''id'') w2 = (Inr True, w')"
  proof (cases x1)
    case (Inl e)
    with h steps show ?thesis by simp
  next
    case (Inr networkConfig)
    let ?svc = "\<lparr>serviceEndpoint = serviceEndpoint this, chainId = chainId this,
               recoveryModuleAddress = js_get networkConfig ''moduleAddress''\<rparr>"
    obtain x2 w2 where cr: "createRecoveryRequest fetch ?svc accountAddress newOwners newThreshold
        ga gs w1 = (x2, w2)"
      by (cases "createRecoveryRequest fetch ?svc accountAddress newOwners newThreshold ga gs w1")
    show ?thesis
    proof (cases x2)
      case (Inl e)
      with h steps Inr cr show ?thesis by simp
    next
      case created: (Inr rr)
      obtain x3 w3 where ex: "executeRecoveryRequest fetch ?svc (js_get rr ''id'') w2 = (x3, w3)"
        by (cases "executeRecoveryRequest fetch ?svc (js_get rr ''id'') w2")
      show ?thesis
      proof (cases x3)
        case (Inl e)
        with h steps Inr cr created ex show ?thesis by simp
      next
        case executed: (Inr ok)
        from h steps Inr cr created ex executed
        have "ok \<and> rr = recoveryRequest \<and> w3 = w'"
          by (cases ok) simp_all
        with cfg Inr cr created ex executed show ?thesis by auto
      qed
    qed
  qed
next
  fix networkConfig w1 recoveryRequest w2 w3
  assume a: "getNetworkConfig fetch (serviceEndpoint this) (chainId this) w = (Inr networkConfig, w1)
        \<and> createRecoveryRequest fetch
              \<lparr>serviceEndpoint = serviceEndpoint this, chainId = chainId this,
               recoveryModuleAddress = js_get networkConfig ''moduleAddress''\<rparr>
              accountAddress newOwners newThreshold ga gs w1 = (Inr recoveryRequest, w2)
        \<and> executeRecoveryRequest fetch
              \<lparr>serviceEndpoint = serviceEndpoint this, chainId = chainId this,
               recoveryModuleAddress = js_get networkConfig ''moduleAddress''\<rparr>
              (js_get recoveryRequest ''id'') w2 = (Inr False, w3)"
  then have cfg: "getNetworkConfig fetch (serviceEndpoint this) (chainId this) w = (Inr networkConfig, w1)"
    by simp
  from createAndExecuteRecoveryRequest_steps[OF cfg, of accountAddress newOwners newThreshold ga gs] a
  show "\<exists>err. createAndExecuteRecoveryRequest fetch this accountAddress newOwners newThreshold
                  ga gs w = (Inl (SdkError err), w3)
               \<and> code err = Code BAD_DATA \<and> message err = ''executeRecoveryRequest failed''"
    by (simp add: new_SafeRecoveryServiceSdkError_JStr)
qed

theorem createAndExecuteRecoveryRequest_fails_loudly_witness:
  "(\<exists>err w3. createAndExecuteRecoveryRequest scripted_fetch custodial_service ''0xA'' [''0xB''] 1
        ''0xG'' ''0xS''
        ([], [Inr (JObj [(''moduleAddress'', JStr ''0xM'')]),
              Inr (JObj [(''id'', JStr ''r1''), (''nonce'', JStr ''0x0'')]),
              Inr (JObj [(''success'', JBool False)])])
      = (Inl (SdkError err), w3) \<and> code err = Code BAD_DATA)
   \<and> (\<exists>networkConfig w2 w'. executeRecoveryRequest scripted_fetch
          \<lparr>serviceEndpoint = ''https://s'', chainId = 1,
           recoveryModuleAddress = js_get networkConfig ''moduleAddress''\<rparr>
          (JStr ''r1'') w2 = (Inr True, w'))"
proof -
  let ?cfg = "JObj [(''moduleAddress'', JStr ''0xM'')]"
  let ?rr = "JObj [(''id'', JStr ''r1''), (''nonce'', JBigInt 0)]"
  let ?svc = "\<lparr>serviceEndpoint = serviceEndpoint custodial_service,
               chainId = chainId custodial_service,
               recoveryModuleAddress = js_get ?cfg ''moduleAddress''\<rparr>"
  let ?wF = "([], [Inr ?cfg, Inr (JObj [(''id'', JStr ''r1''), (''nonce'', JStr ''0x0'')]),
                   Inr (JObj [(''success'', JBool False)])])"
  let ?wT = "([], [Inr ?cfg, Inr (JObj [(''id'', JStr ''r1''), (''nonce'', JStr ''0x0'')]),
                   Inr (JObj [(''success'', JBool True)])])"
  define w1 where "w1 = snd (getNetworkConfig scripted_fetch (serviceEndpoint custodial_service)
                               (chainId custodial_service) ?wF)"
  define w2 where "w2 = snd (createRecoveryRequest scripted_fetch ?svc ''0xA'' [''0xB''] 1
                               ''0xG'' ''0xS'' w1)"
  define w3 where "w3 = snd (executeRecoveryRequest scripted_fetch ?svc (js_get ?rr ''id'') w2)"
  have g1: "getNetworkConfig scripted_fetch (serviceEndpoint custodial_service)
              (chainId custodial_service) ?wF = (Inr ?cfg, w1)"
    unfolding w1_def by (simp add: getNetworkConfig_def run_defs)
  have g2: "createRecoveryRequest scripted_fetch ?svc ''0xA'' [''0xB''] 1 ''0xG'' ''0xS'' w1
      = (Inr ?rr, w2)"
    unfolding w2_def w1_def by (simp add: getNetworkConfig_def createRecoveryRequest_def run_defs)
  have g3: "executeRecoveryRequest scripted_fetch ?svc (js_get ?rr ''id'') w2 = (Inr False, w3)"
    unfolding w3_def w2_def w1_def
    by (simp add: getNetworkConfig_def createRecoveryRequest_def executeRecoveryRequest_def run_defs)
  have hT: "createAndExecuteRecoveryRequest scripted_fetch custodial_service ''0xA'' [''0xB''] 1
        ''0xG'' ''0xS'' ?wT
      = (Inr ?rr, snd (createAndExecuteRecoveryRequest scripted_fetch custodial_service ''0xA''
                         [''0xB''] 1 ''0xG'' ''0xS'' ?wT))"
    by (simp add: createAndExecuteRecoveryRequest_def getNetworkConfig_def
          createRecoveryRequest_def executeRecoveryRequest_def run_defs)
  note thmF = createAndExecuteRecoveryRequest_fails_loudly
      [of scripted_fetch custodial_service "''0xA''" "[''0xB'']" 1 "''0xG''" "''0xS''" ?wF]
  note thmT = createAndExecuteRecoveryRequest_fails_loudly
      [of scripted_fetch custodial_service "''0xA''" "[''0xB'']" 1 "''0xG''" "''0xS''" ?wT]
  from thmF[THEN conjunct2, rule_format, OF conjI[OF g1 conjI[OF g2 g3]]]
  have c1: "\<exists>err w3. createAndExecuteRecoveryRequest scripted_fetch custodial_service ''0xA''
        [''0xB''] 1 ''0xG'' ''0xS'' ?wF = (Inl (SdkError err), w3) \<and> code err = Code BAD_DATA"
    by blast
  from thmT[THEN conjunct1, rule_format, OF hT]
  obtain networkConfig w2' where
    "executeRecoveryRequest scripted_fetch
       \<lparr>serviceEndpoint = serviceEndpoint custodial_service, chainId = chainId custodial_service,
        recoveryModuleAddress = js_get networkConfig ''moduleAddress''\<rparr>
       (js_get ?rr ''id'') w2'
     = (Inr True, snd (createAndExecuteRecoveryRequest scripted_fetch custodial_service ''0xA''
                         [''0xB''] 1 ''0xG'' ''0xS'' ?wT))"
    by blast
  then have "executeRecoveryRequest scripted_fetch
       \<lparr>serviceEndpoint = ''https://s'', chainId = 1,
        recoveryModuleAddress = js_get networkConfig ''moduleAddress''\<rparr>
       (JStr ''r1'') w2'
     = (Inr True, snd (createAndExecuteRecoveryRequest scripted_fetch custodial_service ''0xA''
                         [''0xB''] 1 ''0xG'' ''0xS'' ?wT))"
    by (simp add: custodial_service_def)
  then have c2: "\<exists>networkConfig w2 w'. executeRecoveryRequest scripted_fetch
          \<lparr>serviceEndpoint = ''https://s'', chainId = 1,
           recoveryModuleAddress = js_get networkConfig ''moduleAddress''\<rparr>
          (JStr ''r1'') w2 = (Inr True, w')"
    by (intro exI)
  from c1 c2 show ?thesis by (rule conjI)
qed

section \<open>The custodial signature challenge\<close>

lemma HttpErrorCodeDict_at_not_BAD_DATA: "HttpErrorCodeDict_at k \<noteq> Code BAD_DATA"
  by (simp add: HttpErrorCodeDict_at_def HttpErrorCodeDict_def)

lemma check_response_not_BAD_DATA:
  "check_response url opts r = Inl (SdkError e) \<Longrightarrow> code e \<noteq> Code BAD_DATA"
  unfolding check_response_def Let_def
  by (cases "js_in ''code'' r")
     (auto simp: TypeError_def new_SafeRecoveryServiceSdkError_def HttpErrorCodeDict_at_not_BAD_DATA
           split: bool.splits if_splits option.splits)

lemma sendHttpRequest_not_BAD_DATA:
  assumes "sendHttpRequest fetch url body m hs w = (Inl (SdkError e), w')"
  shows "code e \<noteq> Code BAD_DATA"
proof (cases "request_of url body m hs")
  case (Inl f)
  with assms request_of_Inl[OF Inl] show ?thesis
    by (simp add: sendHttpRequest_def TypeError_def)
next
  case (Inr po)
  obtain params opts where po: "po = (params, opts)" by (cases po)
  obtain x w2 where f: "fetch w params opts = (x, w2)"
    by (cases "fetch w params opts")
  from assms Inr po f show ?thesis
    by (cases x)
       (auto simp: sendHttpRequest_def new_SafeRecoveryServiceSdkError_JStr
             dest: check_response_not_BAD_DATA)
qed

lemma sendHttpRequest_post:
  assumes "fetch w url \<lparr>rq_method = ''POST'', rq_headers = hs,
             rq_body = JSON_stringify_hex (JObj body), rq_redirect = ''follow''\<rparr> = (Inr r, w')"
    and "js_in ''code'' r = Some False"
  shows "sendHttpRequest fetch url body post hs w = (Inr r, w')"
  using assms by (simp add: sendHttpRequest_def request_of_def check_response_def)

lemma sendHttpRequest_Inr_fetch:
  assumes "sendHttpRequest fetch url body m hs w = (Inr r, w')"
  shows "\<exists>params opts. request_of url body m hs = Inr (params, opts)
         \<and> fetch w params opts = (Inr r, w') \<and> js_in ''code'' r = Some False"
proof (cases "request_of url body m hs")
  case (Inl e)
  with assms show ?thesis by (simp add: sendHttpRequest_def)
next
  case (Inr po)
  obtain params opts where po: "po = (params, opts)" by (cases po)
  obtain x w2 where f: "fetch w params opts = (x, w2)"
    by (cases "fetch w params opts")
  from assms Inr po f show ?thesis
    by (cases x) (auto simp: sendHttpRequest_def dest: check_response_Inr)
qed

lemma map_of_absent: "k \<notin> fst ` set kvs \<Longrightarrow> map_of kvs k = None"
  by (simp add: map_of_eq_None_iff)

lemma check_response_Inl:
  "js_in ''code'' r \<noteq> Some False \<Longrightarrow> \<exists>e. check_response url opts r = Inl e"
  unfolding check_response_def Let_def
  by (cases "js_in ''code'' r") (auto split: bool.splits option.splits)

text \<open>
  Claim C9, as stated, has \<open>submitCustodialGuardianSignatureChallenge\<close> return the relayed
  triple for every parsed reply, with \<^verbatim>\<open>undefined\<close> as \<open>success\<close> whenever the reply lacks
  a boolean \<open>success\<close> member. The reply \<^verbatim>\<open>{"success": "yes"}\<close> lacks a boolean
  \<open>success\<close>, and the caller receives the string \<^verbatim>\<open>yes\<close> there, not \<^verbatim>\<open>undefined\<close>. And
  the reply \<^verbatim>\<open>{"code": 400, "message": "no", "success": true}\<close> is not relayed at all:
  \<open>sendHttpRequest\<close> raises \<open>HTTP_BAD_REQUEST\<close> for it.
\<close>

theorem non_boolean_success_counterexample:
  "typeof (js_get (JObj [(''success'', JStr ''yes'')]) ''success'') \<noteq> T_boolean
   \<and> fst (submitCustodialGuardianSignatureChallenge scripted_fetch custodial_service ''q1'' ''c1''
          ''111111'' ([], [Inr (JObj [(''success'', JStr ''yes'')])]))
     = Inr \<lparr>success = JStr ''yes'', custodianGuardianAddress = JUndefined,
            custodianGuardianSignature = JUndefined\<rparr>
   \<and> raised_code (fst (submitCustodialGuardianSignatureChallenge scripted_fetch custodial_service
          ''q1'' ''c1'' ''111111''
          ([], [Inr (JObj [(''code'', JNum 400), (''message'', JStr ''no''),
                           (''success'', JBool True)])])))
     = Some (Code HTTP_BAD_REQUEST)"
  by (simp add: submitCustodialGuardianSignatureChallenge_def run_defs raised_code_def
        in_HttpErrorCodeDict_def HttpErrorCodeDict_at_def HttpErrorCodeDict_def)

text \<open>
  Claim C9, amended. \<open>submitCustodialGuardianSignatureChallenge\<close> validates nothing. For
  every reply \<open>r\<close> that the transport hands back to it (an object or array without a
  \<open>code\<close> member, the only replies \<open>sendHttpRequest\<close> returns), its result is exactly
  \<open>success = r.success\<close>, \<open>custodianGuardianAddress = r.signer\<close>,
  \<open>custodianGuardianSignature = r.signature\<close>: a \<open>success\<close> member of any type is passed
  on as it is, and when \<open>r\<close> has no \<open>success\<close> member the caller receives \<^verbatim>\<open>undefined\<close>
  there. Every other reply makes \<open>sendHttpRequest\<close> raise, and the function returns
  nothing. And no error it raises, in any world, has code \<open>BAD_DATA\<close>.
\<close>

theorem submitCustodialGuardianSignatureChallenge_no_validation:
  "(\<forall>r w'.
      fetch w (serviceEndpoint this @ ''/v1/auth/signature/submit'')
        \<lparr>rq_method = ''POST'', rq_headers = default_headers,
         rq_body = JSON_stringify_hex (JObj [(''requestId'', JStr requestId),
                                             (''challengeId'', JStr challengeId),
                                             (''challenge'', JStr otpChallenge)]),
         rq_redirect = ''follow''\<rparr> = (Inr r, w')
      \<and> js_in ''code'' r = Some False \<longrightarrow>
      submitCustodialGuardianSignatureChallenge fetch this requestId challengeId otpChallenge w
        = (Inr \<lparr>success = js_get r ''success'',
                custodianGuardianAddress = js_get r ''signer'',
                custodianGuardianSignature = js_get r ''signature''\<rparr>, w')
      \<and> (js_in ''success'' r = Some False \<longrightarrow>
           submitCustodialGuardianSignatureChallenge fetch this requestId challengeId otpChallenge w
             = (Inr \<lparr>success = JUndefined,
                     custodianGuardianAddress = js_get r ''signer'',
                     custodianGuardianSignature = js_get r ''signature''\<rparr>, w')))
   \<and> (\<forall>r w'.
      fetch w (serviceEndpoint this @ ''/v1/auth/signature/submit'')
        \<lparr>rq_method = ''POST'', rq_headers = default_headers,
         rq_body = JSON_stringify_hex (JObj [(''requestId'', JStr requestId),
                                             (''challengeId'', JStr challengeId),
                                             (''challenge'', JStr otpChallenge)]),
         rq_redirect = ''follow''\<rparr> = (Inr r, w')
      \<and> js_in ''code'' r \<noteq> Some False \<longrightarrow>
      (\<exists>e. submitCustodialGuardianSignatureChallenge fetch this requestId challengeId
              otpChallenge w = (Inl e, w')))
   \<and> (\<forall>e w'.
      submitCustodialGuardianSignatureChallenge fetch this requestId challengeId otpChallenge w
        = (Inl (SdkError e), w') \<longrightarrow> code e \<noteq> Code BAD_DATA)"
proof (intro conjI allI impI)
  fix r w'
  assume a: "fetch w (serviceEndpoint this @ ''/v1/auth/signature/submit'')
        \<lparr>rq_method = ''POST'', rq_headers = default_headers,
         rq_body = JSON_stringify_hex (JObj [(''requestId'', JStr requestId),
                                             (''challengeId'', JStr challengeId),
                                             (''challenge'', JStr otpChallenge)]),
         rq_redirect = ''follow''\<rparr> = (Inr r, w')
      \<and> js_in ''code'' r = Some False"
  then have s: "sendHttpRequest fetch (serviceEndpoint this @ ''/v1/auth/signature/submit'')
      [(''requestId'', JStr requestId), (''challengeId'', JStr challengeId),
       (''challenge'', JStr otpChallenge)] post default_headers w = (Inr r, w')"
    by (intro sendHttpRequest_post) simp_all
  show result: "submitCustodialGuardianSignatureChallenge fetch this requestId challengeId otpChallenge w
        = (Inr \<lparr>success = js_get r ''success'',
                custodianGuardianAddress = js_get r ''signer'',
                custodianGuardianSignature = js_get r ''signature''\<rparr>, w')"
    unfolding submitCustodialGuardianSignatureChallenge_def Let_def s by simp
  assume "js_in ''success'' r = Some False"
  then have "js_get r ''success'' = JUndefined"
    by (cases r) (auto simp: map_of_absent)
  with result
  show "submitCustodialGuardianSignatureChallenge fetch this requestId challengeId otpChallenge w
             = (Inr \<lparr>success = JUndefined,
                     custodianGuardianAddress = js_get r ''signer'',
                     custodianGuardianSignature = js_get r ''signature''\<rparr>, w')"
    by simp
next
  fix r w'
  let ?url = "serviceEndpoint this @ ''/v1/auth/signature/submit''"
  let ?opts = "\<lparr>rq_method = ''POST'', rq_headers = default_headers,
         rq_body = JSON_stringify_hex (JObj [(''requestId'', JStr requestId),
                                             (''challengeId'', JStr challengeId),
                                             (''challenge'', JStr otpChallenge)]),
         rq_redirect = ''follow''\<rparr>"
  assume a: "fetch w ?url ?opts = (Inr r, w') \<and> js_in ''code'' r \<noteq> Some False"
  then have f: "fetch w ?url ?opts = (Inr r, w')" by (rule conjunct1)
  from a have "js_in ''code'' r \<noteq> Some False" by (rule conjunct2)
  from check_response_Inl[OF this, of ?url ?opts]
  obtain e where e: "check_response ?url ?opts r = Inl e" by blast
  have "sendHttpRequest fetch ?url
      [(''requestId'', JStr requestId), (''challengeId'', JStr challengeId),
       (''challenge'', JStr otpChallenge)] post default_headers w = (Inl e, w')"
    by (simp add: sendHttpRequest_def request_of_def f e)
  then have "submitCustodialGuardianSignatureChallenge fetch this requestId challengeId
              otpChallenge w = (Inl e, w')"
    unfolding submitCustodialGuardianSignatureChallenge_def Let_def by simp
  then show "\<exists>e. submitCustodialGuardianSignatureChallenge fetch this requestId challengeId
              otpChallenge w = (Inl e, w')"
    by (rule exI)
next
  fix e w'
  assume h: "submitCustodialGuardianSignatureChallenge fetch this requestId challengeId otpChallenge w
        = (Inl (SdkError e), w')"
  let ?send = "sendHttpRequest fetch (serviceEndpoint this @ ''/v1/auth/signature/submit'')
      [(''requestId'', JStr requestId), (''challengeId'', JStr challengeId),
       (''challenge'', JStr otpChallenge)] post default_headers w"
  obtain x w2 where s: "?send = (x, w2)" by (cases ?send)
  from h have "x = Inl (SdkError e) \<and> w2 = w'"
    unfolding submitCustodialGuardianSignatureChallenge_def Let_def s by (cases x) simp_all
  with s have "?send = (Inl (SdkError e), w')" by simp
  then show "code e \<noteq> Code BAD_DATA" by (rule sendHttpRequest_not_BAD_DATA)
qed

theorem submitCustodialGuardianSignatureChallenge_no_validation_witness:
  "fst (submitCustodialGuardianSignatureChallenge scripted_fetch custodial_service ''q1'' ''c1''
          ''111111'' ([], [Inr (JObj [(''signer'', JStr ''0xG'')])]))
     = Inr \<lparr>success = JUndefined, custodianGuardianAddress = JStr ''0xG'',
            custodianGuardianSignature = JUndefined\<rparr>
   \<and> fst (submitCustodialGuardianSignatureChallenge scripted_fetch custodial_service ''q1'' ''c1''
          ''111111'' ([], [Inr (JObj [(''success'', JNum 1), (''signer'', JStr ''0xG'')])]))
     = Inr \<lparr>success = JNum 1, custodianGuardianAddress = JStr ''0xG'',
            custodianGuardianSignature = JUndefined\<rparr>
   \<and> raised_code (fst (submitCustodialGuardianSignatureChallenge scripted_fetch custodial_service
          ''q1'' ''c1'' ''111111''
          ([], [Inr (JObj [(''code'', JNum 400), (''message'', JStr ''no'')])])))
       \<noteq> Some (Code BAD_DATA)"
proof -
  let ?r = "JObj [(''signer'', JStr ''0xG'')]"
  let ?w = "([], [Inr ?r])"
  let ?url = "serviceEndpoint custodial_service @ ''/v1/auth/signature/submit''"
  let ?opts = "\<lparr>rq_method = ''POST'', rq_headers = default_headers,
         rq_body = JSON_stringify_hex (JObj [(''requestId'', JStr ''q1''),
                                             (''challengeId'', JStr ''c1''),
                                             (''challenge'', JStr ''111111'')]),
         rq_redirect = ''follow''\<rparr>"
  have f: "scripted_fetch ?w ?url ?opts = (Inr ?r, snd (scripted_fetch ?w ?url ?opts))"
    by (simp add: scripted_fetch_def)
  have c: "js_in ''code'' ?r = Some False"
    by (simp add: Object_prototype_names_def)
  have s: "js_in ''success'' ?r = Some False"
    by (simp add: Object_prototype_names_def)
  note inst = submitCustodialGuardianSignatureChallenge_no_validation
      [of scripted_fetch ?w custodial_service "''q1''" "''c1''" "''111111''"]
  from inst[THEN conjunct1, rule_format, OF conjI[OF f c], THEN conjunct2, rule_format, OF s]
  have c1: "fst (submitCustodialGuardianSignatureChallenge scripted_fetch custodial_service ''q1''
          ''c1'' ''111111'' ?w)
     = Inr \<lparr>success = JUndefined, custodianGuardianAddress = JStr ''0xG'',
            custodianGuardianSignature = JUndefined\<rparr>"
    by simp
  let ?r3 = "JObj [(''success'', JNum 1), (''signer'', JStr ''0xG'')]"
  let ?w3 = "([], [Inr ?r3])"
  have f3: "scripted_fetch ?w3 ?url ?opts = (Inr ?r3, snd (scripted_fetch ?w3 ?url ?opts))"
    by (simp add: scripted_fetch_def)
  have c3: "js_in ''code'' ?r3 = Some False"
    by (simp add: Object_prototype_names_def)
  note inst3 = submitCustodialGuardianSignatureChallenge_no_validation
      [of scripted_fetch ?w3 custodial_service "''q1''" "''c1''" "''111111''"]
  from inst3[THEN conjunct1, rule_format, OF conjI[OF f3 c3], THEN conjunct1]
  have c1': "fst (submitCustodialGuardianSignatureChallenge scripted_fetch custodial_service ''q1''
          ''c1'' ''111111'' ?w3)
     = Inr \<lparr>success = JNum 1, custodianGuardianAddress = JStr ''0xG'',
            custodianGuardianSignature = JUndefined\<rparr>"
    by simp
  let ?w2 = "([], [Inr (JObj [(''code'', JNum 400), (''message'', JStr ''no'')])])"
  let ?run2 = "submitCustodialGuardianSignatureChallenge scripted_fetch custodial_service
          ''q1'' ''c1'' ''111111'' ?w2"
  note inst2 = submitCustodialGuardianSignatureChallenge_no_validation
      [of scripted_fetch ?w2 custodial_service "''q1''" "''c1''" "''111111''"]
  have c2: "raised_code (fst ?run2) \<noteq> Some (Code BAD_DATA)"
  proof (cases "fst ?run2")
    case (Inl f)
    show ?thesis
    proof (cases f)
      case (SdkError e)
      with Inl have "?run2 = (Inl (SdkError e), snd ?run2)" by (simp add: prod_eq_iff)
      from inst2[THEN conjunct2, THEN conjunct2, rule_format, OF this] Inl SdkError show ?thesis
        by (simp add: raised_code_def)
    next
      case (NativeError e)
      with Inl show ?thesis by (simp add: raised_code_def)
    qed
  next
    case (Inr res)
    then show ?thesis by (simp add: raised_code_def)
  qed
  from c1 c1' c2 show ?thesis by simp
qed

text \<open>
  Claim C3, as stated, asks \<open>submitCustodialGuardianSignatureChallenge\<close> never to return a
  populated (address, signature) pair before all \<open>k\<close> channels of the request are verified.
  The function has no such state: it returns what the authority replied to this one
  submission. Here the authority has announced \<open>requiredVerifications = 2\<close> and answers the
  first submission with a signer and a signature; the function returns both.
\<close>

theorem custodial_release_counterexample:
  "js_get (case fst (requestCustodialGuardianSignatureChallenge scripted_fetch custodial_service
                      ''0xA'' [''0xB''] 1
                      ([], [Inr (JObj [(''requestId'', JStr ''q1''),
                                       (''requiredVerifications'', JNum 2),
                                       (''auths'', JArr [JObj [(''challengeId'', JStr ''c1'')],
                                                         JObj [(''challengeId'', JStr ''c2'')]])]),
                            Inr (JObj [(''success'', JBool True), (''signer'', JStr ''0xG''),
                                       (''signature'', JStr ''0xS'')])])) of
             Inr signatureRequest \<Rightarrow> signatureRequest | Inl e \<Rightarrow> JUndefined)
     ''requiredVerifications'' = JNum 2
   \<and> fst (submitCustodialGuardianSignatureChallenge scripted_fetch custodial_service ''q1'' ''c1''
          ''111111''
          (snd (requestCustodialGuardianSignatureChallenge scripted_fetch custodial_service
                  ''0xA'' [''0xB''] 1
                  ([], [Inr (JObj [(''requestId'', JStr ''q1''),
                                   (''requiredVerifications'', JNum 2),
                                   (''auths'', JArr [JObj [(''challengeId'', JStr ''c1'')],
                                                     JObj [(''challengeId'', JStr ''c2'')]])]),
                        Inr (JObj [(''success'', JBool True), (''signer'', JStr ''0xG''),
                                   (''signature'', JStr ''0xS'')])]))))
     = Inr \<lparr>success = JBool True, custodianGuardianAddress = JStr ''0xG'',
            custodianGuardianSignature = JStr ''0xS''\<rparr>"
  by (simp add: requestCustodialGuardianSignatureChallenge_def
        submitCustodialGuardianSignatureChallenge_def run_defs)

text \<open>
  Claim C3, amended. Whatever \<open>submitCustodialGuardianSignatureChallenge\<close> returns is copied
  from the authority's reply to that one submission: the success flag, and the (address,
  signature) pair, which is populated exactly when that reply carries \<open>signer\<close> and
  \<open>signature\<close>. Releasing the pair only with the \<open>k\<close>-th verification is the behaviour of
  the authority; the function keeps no count and enforces none.
\<close>

theorem submitCustodialGuardianSignatureChallenge_relays_reply:
  "\<forall>res w'.
     submitCustodialGuardianSignatureChallenge fetch this requestId challengeId otpChallenge w
       = (Inr res, w') \<longrightarrow>
     (\<exists>r. fetch w (serviceEndpoint this @ ''/v1/auth/signature/submit'')
              \<lparr>rq_method = ''POST'', rq_headers = default_headers,
               rq_body = JSON_stringify_hex (JObj [(''requestId'', JStr requestId),
                                                   (''challengeId'', JStr challengeId),
                                                   (''challenge'', JStr otpChallenge)]),
               rq_redirect = ''follow''\<rparr> = (Inr r, w')
          \<and> success res = js_get r ''success''
          \<and> custodianGuardianAddress res = js_get r ''signer''
          \<and> custodianGuardianSignature res = js_get r ''signature'')"
proof (intro allI impI)
  fix res w'
  assume h: "submitCustodialGuardianSignatureChallenge fetch this requestId challengeId otpChallenge w
       = (Inr res, w')"
  let ?body = "[(''requestId'', JStr requestId), (''challengeId'', JStr challengeId),
       (''challenge'', JStr otpChallenge)]"
  let ?url = "serviceEndpoint this @ ''/v1/auth/signature/submit''"
  let ?send = "sendHttpRequest fetch ?url ?body post default_headers w"
  obtain x w2 where s: "?send = (x, w2)" by (cases ?send)
  from h obtain r where x: "x = Inr r" and w2: "w2 = w'"
      and res: "res = \<lparr>success = js_get r ''success'',
                custodianGuardianAddress = js_get r ''signer'',
                custodianGuardianSignature = js_get r ''signature''\<rparr>"
    unfolding submitCustodialGuardianSignatureChallenge_def Let_def s by (cases x) auto
  from s x w2 have "?send = (Inr r, w')" by simp
  from sendHttpRequest_Inr_fetch[OF this]
  have "fetch w ?url \<lparr>rq_method = ''POST'', rq_headers = default_headers,
               rq_body = JSON_stringify_hex (JObj ?body), rq_redirect = ''follow''\<rparr> = (Inr r, w')"
    by (auto simp: request_of_def)
  with res
  show "\<exists>r. fetch w ?url
              \<lparr>rq_method = ''POST'', rq_headers = default_headers,
               rq_body = JSON_stringify_hex (JObj ?body),
               rq_redirect = ''follow''\<rparr> = (Inr r, w')
          \<and> success res = js_get r ''success''
          \<and> custodianGuardianAddress res = js_get r ''signer''
          \<and> custodianGuardianSignature res = js_get r ''signature''"
    by auto
qed

theorem submitCustodialGuardianSignatureChallenge_relays_reply_witness:
  "\<exists>r w'. scripted_fetch
            ([], [Inr (JObj [(''success'', JBool True), (''signer'', JStr ''0xG''),
                             (''signature'', JStr ''0xS'')])])
            (serviceEndpoint custodial_service @ ''/v1/auth/signature/submit'')
            \<lparr>rq_method = ''POST'', rq_headers = default_headers,
             rq_body = JSON_stringify_hex (JObj [(''requestId'', JStr ''q1''),
                                                 (''challengeId'', JStr ''c1''),
                                                 (''challenge'', JStr ''111111'')]),
             rq_redirect = ''follow''\<rparr> = (Inr r, w')
         \<and> JStr ''0xG'' = js_get r ''signer'' \<and> JStr ''0xS'' = js_get r ''signature''"
proof -
  let ?w = "([], [Inr (JObj [(''success'', JBool True), (''signer'', JStr ''0xG''),
                             (''signature'', JStr ''0xS'')])])"
  let ?run = "submitCustodialGuardianSignatureChallenge scripted_fetch custodial_service ''q1''
                ''c1'' ''111111'' ?w"
  have h: "?run = (Inr \<lparr>success = JBool True, custodianGuardianAddress = JStr ''0xG'',
                        custodianGuardianSignature = JStr ''0xS''\<rparr>, snd ?run)"
    by (simp add: submitCustodialGuardianSignatureChallenge_def run_defs)
  from submitCustodialGuardianSignatureChallenge_relays_reply
         [of scripted_fetch custodial_service "''q1''" "''c1''" "''111111''" ?w,
          rule_format, OF h]
  show ?thesis by auto
qed

section \<open>Shape validation of replies\<close>

text \<open>
  Claim C8 says that a malformed reply always produces \<open>BAD_DATA\<close> and that every failure
  is a \<open>SafeRecoveryServiceSdkError\<close>. \<open>getRegistrations\<close> validates each element of
  \<^verbatim>\<open>response["registrations"]\<close> but not that member itself: for every reply that is an object
  or array without a \<open>code\<close> member and whose \<open>registrations\<close> member cannot be iterated
  (it is missing, \<^verbatim>\<open>null\<close>, a number, a boolean or an object), the loop header raises a
  native TypeError, which nothing wraps. The request itself is always built: its payload
  holds strings and a number, which convert for the query string.
\<close>

theorem getRegistrations_unchecked_container:
  "(\<exists>params requestOptions.
      request_of (serviceEndpoint this @ ''/v1/auth/registrations'')
        [(''account'', JStr accountAddress), (''chainId'', JNum (chainId this)),
         (''message'', JStr siweMessage),
         (''signature'', JStr eip1271SiweContractSignature)] get default_headers
      = Inr (params, requestOptions))
   \<and> (\<forall>r w' params requestOptions.
     request_of (serviceEndpoint this @ ''/v1/auth/registrations'')
        [(''account'', JStr accountAddress), (''chainId'', JNum (chainId this)),
         (''message'', JStr siweMessage),
         (''signature'', JStr eip1271SiweContractSignature)] get default_headers
      = Inr (params, requestOptions)
     \<and> fetch w params requestOptions = (Inr r, w')
     \<and> js_in ''code'' r = Some False
     \<and> js_iterate (js_get r ''registrations'') = None \<longrightarrow>
     getRegistrations fetch this accountAddress siweMessage eip1271SiweContractSignature w
       = (Inl (TypeError ''registrations is not iterable''), w'))"
proof (intro conjI allI impI)
  show "\<exists>params requestOptions.
      request_of (serviceEndpoint this @ ''/v1/auth/registrations'')
        [(''account'', JStr accountAddress), (''chainId'', JNum (chainId this)),
         (''message'', JStr siweMessage),
         (''signature'', JStr eip1271SiweContractSignature)] get default_headers
      = Inr (params, requestOptions)"
    by (simp add: request_of_def)
next
  fix r w' params requestOptions
  let ?url = "serviceEndpoint this @ ''/v1/auth/registrations''"
  let ?body = "[(''account'', JStr accountAddress), (''chainId'', JNum (chainId this)),
                (''message'', JStr siweMessage),
                (''signature'', JStr eip1271SiweContractSignature)]"
  assume a: "request_of ?url ?body get default_headers = Inr (params, requestOptions)
     \<and> fetch w params requestOptions = (Inr r, w')
     \<and> js_in ''code'' r = Some False
     \<and> js_iterate (js_get r ''registrations'') = None"
  then have ro: "request_of ?url ?body get default_headers = Inr (params, requestOptions)"
    by (rule conjunct1)
  from a have f: "fetch w params requestOptions = (Inr r, w')" by simp
  from a have c: "js_in ''code'' r = Some False" by simp
  have s: "sendHttpRequest fetch ?url ?body get default_headers w = (Inr r, w')"
    unfolding sendHttpRequest_def ro by (simp add: f check_response_def c)
  from a have it: "js_iterate (js_get r ''registrations'') = None" by simp
  show "getRegistrations fetch this accountAddress siweMessage eip1271SiweContractSignature w
       = (Inl (TypeError ''registrations is not iterable''), w')"
    unfolding getRegistrations_def Let_def s by (simp add: it)
qed

theorem getRegistrations_unchecked_container_witness:
  "fst (getRegistrations scripted_fetch custodial_service ''0xA'' ''m'' ''0xS''
          ([], [Inr (JObj [])]))
     = Inl (NativeError \<lparr>err_name = ''TypeError'', err_message = ''registrations is not iterable''\<rparr>)
   \<and> raised_code (fst (getRegistrations scripted_fetch custodial_service ''0xA'' ''m'' ''0xS''
          ([], [Inr (JObj [])]))) = None"
proof -
  let ?w = "([], [Inr (JObj [])])"
  note inst = getRegistrations_unchecked_container
         [of custodial_service "''0xA''" "''m''" "''0xS''" scripted_fetch ?w]
  from inst[THEN conjunct1] obtain params opts where
    ro: "request_of (serviceEndpoint custodial_service @ ''/v1/auth/registrations'')
        [(''account'', JStr ''0xA''), (''chainId'', JNum (chainId custodial_service)),
         (''message'', JStr ''m''), (''signature'', JStr ''0xS'')] get default_headers
      = Inr (params, opts)"
    by blast
  have f: "scripted_fetch ?w params opts = (Inr (JObj []), snd (scripted_fetch ?w params opts))"
    by (simp add: scripted_fetch_def)
  have c: "js_in ''code'' (JObj []) = Some False"
    by (simp add: Object_prototype_names_def)
  have i: "js_iterate (js_get (JObj []) ''registrations'') = None"
    by simp
  from inst[THEN conjunct2, rule_format, OF conjI[OF ro conjI[OF f conjI[OF c i]]]]
  show ?thesis by (simp add: TypeError_def raised_code_def)
qed

section \<open>The error-code taxonomy\<close>

lemma map_of_present: "map_of kvs k = Some v \<Longrightarrow> k \<in> fst ` set kvs"
  by (metis map_of_eq_None_iff option.distinct(1))

text \<open>
  Claim C6 lets \<open>sendHttpRequest\<close> always raise a \<open>SafeRecoveryServiceSdkError\<close> for a
  reply with a \<open>code\<close> member, with the dictionary's code for the ten keys and
  \<open>UNKNOWN_ERROR\<close> for any other code. What the code does for such a reply \<open>r\<close>, once the
  request was built and the transport succeeded, is this. It converts \<open>r.code\<close> with
  \<^verbatim>\<open>String\<close> and \<open>r.message\<close> in the constructor of the error; when either conversion
  throws, that TypeError is what it raises. Otherwise it raises the
  \<open>SafeRecoveryServiceSdkError\<close> with the reply's message, the code as \<open>errno\<close>, and as its
  code: the dictionary's entry for one of the ten keys; \<open>UNKNOWN_ERROR\<close> for a code string
  that is neither a key nor a name that the dictionary inherits from \<^verbatim>\<open>Object.prototype\<close>;
  and for such an inherited name, which \<^verbatim>\<open>codeString in HttpErrorCodeDict\<close> also accepts,
  the inherited member, which is no error code. The reply is never returned. So the claim
  fails at the reply \<^verbatim>\<open>{"code": "toString", "message": "boom"}\<close>.
\<close>

theorem sendHttpRequest_error_code_mapping:
  "\<forall>r w' params requestOptions.
     request_of rpcUrl body method headers = Inr (params, requestOptions)
     \<and> fetch w params requestOptions = (Inr r, w')
     \<and> js_in ''code'' r = Some True \<longrightarrow>
     sendHttpRequest fetch rpcUrl body method headers w =
       ((case js_String (js_get r ''code'') of
          None \<Rightarrow> Inl (TypeError ''Cannot convert object to primitive value'')
        | Some codeString \<Rightarrow>
            (case Error_message (js_get r ''message'') of
               None \<Rightarrow> Inl (TypeError ''Cannot convert object to primitive value'')
             | Some m \<Rightarrow>
                 Inl (SdkError
                   \<lparr>code = (case map_of HttpErrorCodeDict codeString of
                              Some c \<Rightarrow> Code c
                            | None \<Rightarrow>
                                if codeString \<in> set Object_prototype_names
                                then NotACode codeString else Code UNKNOWN_ERROR),
                    message = m,
                    cause = None,
                    errno = js_get r ''code'',
                    error_context = request_context rpcUrl requestOptions\<rparr>))), w')"
proof (intro allI impI)
  fix r w' params requestOptions
  assume a: "request_of rpcUrl body method headers = Inr (params, requestOptions)
     \<and> fetch w params requestOptions = (Inr r, w')
     \<and> js_in ''code'' r = Some True"
  then have ro: "request_of rpcUrl body method headers = Inr (params, requestOptions)"
    by (rule conjunct1)
  from a have f: "fetch w params requestOptions = (Inr r, w')" by simp
  from a have c: "js_in ''code'' r = Some True" by simp
  have s: "sendHttpRequest fetch rpcUrl body method headers w
      = (check_response rpcUrl requestOptions r, w')"
    unfolding sendHttpRequest_def ro by (simp add: f)
  show "sendHttpRequest fetch rpcUrl body method headers w =
       ((case js_String (js_get r ''code'') of
          None \<Rightarrow> Inl (TypeError ''Cannot convert object to primitive value'')
        | Some codeString \<Rightarrow>
            (case Error_message (js_get r ''message'') of
               None \<Rightarrow> Inl (TypeError ''Cannot convert object to primitive value'')
             | Some m \<Rightarrow>
                 Inl (SdkError
                   \<lparr>code = (case map_of HttpErrorCodeDict codeString of
                              Some c \<Rightarrow> Code c
                            | None \<Rightarrow>
                                if codeString \<in> set Object_prototype_names
                                then NotACode codeString else Code UNKNOWN_ERROR),
                    message = m,
                    cause = None,
                    errno = js_get r ''code'',
                    error_context = request_context rpcUrl requestOptions\<rparr>))), w')"
  proof (cases "js_String (js_get r ''code'')")
    case None
    then show ?thesis unfolding s by (simp add: check_response_def c)
  next
    case code: (Some k)
    show ?thesis
    proof (cases "Error_message (js_get r ''message'')")
      case None
      with code show ?thesis
        unfolding s by (simp add: check_response_def c new_SafeRecoveryServiceSdkError_def)
    next
      case msg: (Some m)
      show ?thesis
      proof (cases "map_of HttpErrorCodeDict k")
        case None
        then have "k \<notin> set (map fst HttpErrorCodeDict)"
          by (simp add: map_of_eq_None_iff)
        with None code msg show ?thesis
          unfolding s
          by (simp add: check_response_def c new_SafeRecoveryServiceSdkError_def
                in_HttpErrorCodeDict_def HttpErrorCodeDict_at_def)
      next
        case (Some known)
        then have "k \<in> set (map fst HttpErrorCodeDict)"
          by (auto dest: map_of_present)
        with Some code msg show ?thesis
          unfolding s
          by (simp add: check_response_def c new_SafeRecoveryServiceSdkError_def
                in_HttpErrorCodeDict_def HttpErrorCodeDict_at_def)
      qed
    qed
  qed
qed

theorem sendHttpRequest_error_code_mapping_witness:
  "raised_code (fst (sendHttpRequest scripted_fetch ''https://s/x'' [] post default_headers
                       ([], [Inr (JObj [(''code'', JStr ''toString''), (''message'', JStr ''boom'')])])))
     = Some (NotACode ''toString'')
   \<and> map_of HttpErrorCodeDict ''toString'' = None
   \<and> raised_code (fst (sendHttpRequest scripted_fetch ''https://s/x'' [] post default_headers
                       ([], [Inr (JObj [(''code'', JNum 404), (''message'', JStr ''not found'')])])))
     = Some (Code HTTP_NOT_FOUND)
   \<and> raised_code (fst (sendHttpRequest scripted_fetch ''https://s/x'' [] post default_headers
                       ([], [Inr (JObj [(''code'', JNum 418), (''message'', JStr ''teapot'')])])))
     = Some (Code UNKNOWN_ERROR)
   \<and> fst (sendHttpRequest scripted_fetch ''https://s/x'' [] post default_headers
            ([], [Inr (JObj [(''code'', JNum 404),
                             (''message'', JObj [(''toString'', JNum 1)])])]))
     = Inl (NativeError \<lparr>err_name = ''TypeError'',
                         err_message = ''Cannot convert object to primitive value''\<rparr>)"
proof -
  let ?r0 = "JObj [(''code'', JStr ''toString''), (''message'', JStr ''boom'')]"
  let ?r1 = "JObj [(''code'', JNum 404), (''message'', JStr ''not found'')]"
  let ?r2 = "JObj [(''code'', JNum 418), (''message'', JStr ''teapot'')]"
  let ?r3 = "JObj [(''code'', JNum 404), (''message'', JObj [(''toString'', JNum 1)])]"
  let ?opts = "\<lparr>rq_method = ''POST'', rq_headers = default_headers,
                rq_body = JSON_stringify_hex (JObj []), rq_redirect = ''follow''\<rparr>"
  have ro: "request_of ''https://s/x'' [] post default_headers = Inr (''https://s/x'', ?opts)"
    by (simp add: request_of_def)
  have f: "scripted_fetch ([], [Inr r]) ''https://s/x'' ?opts
      = (Inr r, snd (scripted_fetch ([], [Inr r]) ''https://s/x'' ?opts))" for r
    by (simp add: scripted_fetch_def)
  have c0: "js_in ''code'' ?r0 = Some True" by simp
  have c1: "js_in ''code'' ?r1 = Some True" by simp
  have c2: "js_in ''code'' ?r2 = Some True" by simp
  have c3: "js_in ''code'' ?r3 = Some True" by simp
  note defs = raised_code_def Error_message_def HttpErrorCodeDict_def Object_prototype_names_def
    int_toString_def dec_digits.simps digit_char_def TypeError_def
  from sendHttpRequest_error_code_mapping
         [of "''https://s/x''" "[]" post default_headers scripted_fetch "([], [Inr ?r0])",
          rule_format, OF conjI[OF ro conjI[OF f c0]]]
  have w0: "raised_code (fst (sendHttpRequest scripted_fetch ''https://s/x'' [] post
      default_headers ([], [Inr ?r0]))) = Some (NotACode ''toString'')"
    by (simp add: defs)
  have d0: "map_of HttpErrorCodeDict ''toString'' = None"
    by (simp add: HttpErrorCodeDict_def)
  from sendHttpRequest_error_code_mapping
         [of "''https://s/x''" "[]" post default_headers scripted_fetch "([], [Inr ?r1])",
          rule_format, OF conjI[OF ro conjI[OF f c1]]]
  have w1: "raised_code (fst (sendHttpRequest scripted_fetch ''https://s/x'' [] post
      default_headers ([], [Inr ?r1]))) = Some (Code HTTP_NOT_FOUND)"
    by (simp add: defs)
  from sendHttpRequest_error_code_mapping
         [of "''https://s/x''" "[]" post default_headers scripted_fetch "([], [Inr ?r2])",
          rule_format, OF conjI[OF ro conjI[OF f c2]]]
  have w2: "raised_code (fst (sendHttpRequest scripted_fetch ''https://s/x'' [] post
      default_headers ([], [Inr ?r2]))) = Some (Code UNKNOWN_ERROR)"
    by (simp add: defs)
  from sendHttpRequest_error_code_mapping
         [of "''https://s/x''" "[]" post default_headers scripted_fetch "([], [Inr ?r3])",
          rule_format, OF conjI[OF ro conjI[OF f c3]]]
  have w3: "fst (sendHttpRequest scripted_fetch ''https://s/x'' [] post default_headers
            ([], [Inr ?r3]))
     = Inl (NativeError \<lparr>err_name = ''TypeError'',
                         err_message = ''Cannot convert object to primitive value''\<rparr>)"
    by (simp add: defs)
  from w0 d0 w1 w2 w3 show ?thesis by simp
qed

section \<open>Large integers on the wire\<close>

text \<open>
  Claim C5 says that every bigint of a payload goes out as a \<^verbatim>\<open>0x\<close>-prefixed hexadecimal
  string, for POST and for GET. The replacer that does this runs inside
  \<^verbatim>\<open>JSON.stringify\<close>, whose result \<open>rawBody\<close> only the POST branch sends. The GET branch
  builds the query from \<open>body\<close> itself with \<^verbatim>\<open>URLSearchParams\<close>, which converts a value with
  \<^verbatim>\<open>String\<close>: a bigint property goes out in decimal, without \<^verbatim>\<open>0x\<close>, and nothing is sent
  as a request body. For POST the same property goes out as the quoted hexadecimal string.
\<close>

theorem get_query_prints_bigint_in_decimal:
  "request_of rpcUrl [(k, JBigInt n)] get headers
     = Inr (rpcUrl @ ''?'' @ urlencode k @ ''='' @ urlencode (int_toString n),
        \<lparr>rq_method = ''GET'', rq_headers = headers, rq_body = None, rq_redirect = ''follow''\<rparr>)
   \<and> request_of rpcUrl [(k, JBigInt n)] post headers
     = Inr (rpcUrl,
        \<lparr>rq_method = ''POST'', rq_headers = headers,
         rq_body = Some (''{'' @ quote k @ '':'' @ quote (''0x'' @ bigint_toString16 n) @ ''}''),
         rq_redirect = ''follow''\<rparr>)"
  by (simp add: request_of_def URLSearchParams_toString_def JSON_stringify_hex_def)

theorem get_query_prints_bigint_in_decimal_witness:
  "snd (sendHttpRequest scripted_fetch ''https://s/x'' [(''nonce'', JBigInt 255)] get
          default_headers ([], [Inr (JObj [])]))
     = ([(''GET'', ''https://s/x?nonce=255'', None)], [])
   \<and> snd (sendHttpRequest scripted_fetch ''https://s/x'' [(''nonce'', JBigInt 255)] post
          default_headers ([], [Inr (JObj [])]))
     = ([(''POST'', ''https://s/x'', Some (''{'' @ quote ''nonce'' @ '':'' @ quote ''0xff'' @ ''}''))],
        [])"
proof -
  have d: "urlencode ''nonce'' = ''nonce'' \<and> urlencode (int_toString 255) = ''255''
      \<and> bigint_toString16 255 = ''ff''"
    by (simp add: urlencode_def urlencode_byte_def is_alnum_def int_toString_def
          bigint_toString16_def dec_digits.simps hex_digits.simps digit_char_def)
  from get_query_prints_bigint_in_decimal[of "''https://s/x''" "''nonce''" 255 default_headers] d
  show ?thesis
    by (simp add: sendHttpRequest_def scripted_fetch_def check_response_def
          Object_prototype_names_def)
qed

section \<open>The typed-statement builder\<close>

lemma hexlify_length: "length (hexlify bytes) = 2 + 2 * length bytes"
  by (induction bytes) (simp_all add: hexlify_def hex2_def)

lemma bit_length_le: "m < 2 ^ k \<Longrightarrow> bit_length m \<le> k"
proof (induction k arbitrary: m)
  case 0
  then show ?case by (simp add: bit_length.simps)
next
  case (Suc k)
  show ?case
  proof (cases "m = 0")
    case True
    then show ?thesis by (simp add: bit_length.simps)
  next
    case False
    from Suc.prems have "m div 2 < 2 ^ k" by simp
    from Suc.IH[OF this] False show ?thesis by (simp add: bit_length.simps[of m])
  qed
qed

lemma js_Number_safe:
  assumes "\<bar>b\<bar> < 2 ^ 53"
  shows "js_Number b = Integral b"
proof -
  from assms have m: "nat \<bar>b\<bar> < 2 ^ 53" by (simp add: nat_less_iff)
  from bit_length_le[OF m] have nd: "nearest_double (nat \<bar>b\<bar>) = nat \<bar>b\<bar>"
    by (simp add: nearest_double_def)
  have "(2::nat) ^ 53 \<le> 2 ^ 1024" by (rule power_increasing) simp_all
  with m have "\<not> 2 ^ 1024 \<le> nat \<bar>b\<bar>" by linarith
  with nd show ?thesis by (simp add: js_Number_def Let_def)
qed

text \<open>
  Claim C7, as stated, has \<open>generateSIWEMessage\<close> return a message whenever the address is
  well-formed, and that message carry the given chain id. The \<^verbatim>\<open>try\<close> block also holds
  the construction of the \<^verbatim>\<open>SiweMessage\<close> and \<^verbatim>\<open>prepareMessage\<close>, and the \<^verbatim>\<open>catch\<close>
  wraps whatever they throw: with an address that \<open>getAddress\<close> accepts and an empty
  domain, which the library refuses, the result is the \<open>SIWE_ERROR\<close> and no message. And
  the chain id reaches the library as \<^verbatim>\<open>Number(chainId)\<close>: for the chain id
  \<open>2^53 + 1 = 9007199254740993\<close> the message carries \<open>9007199254740992\<close>.
\<close>

theorem well_formed_address_SIWE_ERROR_counterexample:
  "checksum_address ''0x00000000000000000000000000000000000000aa''
     = Inr ''0x00000000000000000000000000000000000000aa''
   \<and> raised_code (generateSIWEMessage checksum_address siwe_library (\<lambda>i. 7)
          ''2025-01-01T00:00:00.000Z'' ''0x00000000000000000000000000000000000000aa''
          ''I request'' 1 [] ''service://safe-recovery-service'')
     = Some (Code SIWE_ERROR)
   \<and> generateSIWEMessage checksum_address siwe_library (\<lambda>i. 7)
          ''2025-01-01T00:00:00.000Z'' ''0x00000000000000000000000000000000000000aa''
          ''I request'' 9007199254740993 ''example.org'' ''service://safe-recovery-service''
     = Inr (''example.org wants you to sign in with your Ethereum account:'' @ [CHR 0x0A]
            @ ''0x00000000000000000000000000000000000000aa'' @ [CHR 0x0A, CHR 0x0A]
            @ ''I request'' @ [CHR 0x0A, CHR 0x0A]
            @ ''URI: service://safe-recovery-service'' @ [CHR 0x0A]
            @ ''Version: 1'' @ [CHR 0x0A]
            @ ''Chain ID: 9007199254740992'' @ [CHR 0x0A]
            @ ''Nonce: 0x070707070707070707070707070707070707070707070707'' @ [CHR 0x0A]
            @ ''Issued At: 2025-01-01T00:00:00.000Z'')"
proof -
  have a: "checksum_address ''0x00000000000000000000000000000000000000aa''
     = Inr ''0x00000000000000000000000000000000000000aa''"
    by (simp add: checksum_address_def digit_value_def)
  have n: "js_Number 9007199254740993 = Integral 9007199254740992"
    by (simp add: js_Number_def nearest_double_def bit_length.simps Let_def)
  have d: "int_toString 9007199254740992 = ''9007199254740992''"
    by (simp add: int_toString_def dec_digits.simps digit_char_def)
  have e: "raised_code (generateSIWEMessage checksum_address siwe_library (\<lambda>i. 7)
          ''2025-01-01T00:00:00.000Z'' ''0x00000000000000000000000000000000000000aa''
          ''I request'' 1 [] ''service://safe-recovery-service'')
     = Some (Code SIWE_ERROR)"
    by (simp add: generateSIWEMessage_def a siwe_library_def raised_code_def
          new_SafeRecoveryServiceSdkError_JStr Let_def)
  have r: "generateSIWEMessage checksum_address siwe_library (\<lambda>i. 7)
          ''2025-01-01T00:00:00.000Z'' ''0x00000000000000000000000000000000000000aa''
          ''I request'' 9007199254740993 ''example.org'' ''service://safe-recovery-service''
     = Inr (''example.org wants you to sign in with your Ethereum account:'' @ [CHR 0x0A]
            @ ''0x00000000000000000000000000000000000000aa'' @ [CHR 0x0A, CHR 0x0A]
            @ ''I request'' @ [CHR 0x0A, CHR 0x0A]
            @ ''URI: service://safe-recovery-service'' @ [CHR 0x0A]
            @ ''Version: 1'' @ [CHR 0x0A]
            @ ''Chain ID: 9007199254740992'' @ [CHR 0x0A]
            @ ''Nonce: 0x070707070707070707070707070707070707070707070707'' @ [CHR 0x0A]
            @ ''Issued At: 2025-01-01T00:00:00.000Z'')"
    by (simp add: generateSIWEMessage_def a n d siwe_library_def Let_def hexlify_def
          randomBytes_def hex2_def digit_char_def upt_conv_Cons)
  from a e r show ?thesis by simp
qed

text \<open>
  Claim C7, amended. \<open>generateSIWEMessage\<close> raises a \<open>SafeRecoveryServiceSdkError\<close> with
  code \<open>SIWE_ERROR\<close> and the message of the cause when the subject address is not
  well-formed, and also when the SIWE library rejects the message fields. Otherwise it
  returns the message the library prepares from version 1, the checksummed address, the
  given domain, uri and statement, the chain id converted by \<^verbatim>\<open>Number\<close>, which is the given
  chain id when that is below \<open>2^53\<close> in magnitude, the issuance timestamp, and a nonce that
  is \<^verbatim>\<open>0x\<close> followed by the hexadecimal digits of 24 bytes drawn from the random source.
\<close>

theorem generateSIWEMessage_result:
  "(\<forall>error. getAddress accountAddress = Inl error \<longrightarrow>
      generateSIWEMessage getAddress prepare entropy now accountAddress statement chainId'
          siweDomain' siweUri'
        = Inl (SdkError \<lparr>code = Code SIWE_ERROR, message = err_message error,
                          cause = Some error, errno = JUndefined,
                          error_context = JObj [(''accountAddress'', JStr accountAddress),
                                                (''statement'', JStr statement)]\<rparr>))
   \<and> (\<forall>address fields.
        getAddress accountAddress = Inr address
        \<and> fields = \<lparr>siwe_version = ''1'', siwe_address = address, siwe_domain = siweDomain',
                     siwe_uri = siweUri', siwe_statement = statement,
                     siwe_chainId = js_Number chainId',
                     siwe_nonce = ''0x'' @ concat (map (\<lambda>i. hex2 (unat (entropy i))) [0 ..< 24]),
                     siwe_issuedAt = now\<rparr>
        \<longrightarrow>
        length (siwe_nonce fields) = 50
        \<and> (\<bar>chainId'\<bar> < 2 ^ 53 \<longrightarrow> siwe_chainId fields = Integral chainId')
        \<and> (\<forall>m. prepare fields = Inr m \<longrightarrow>
               generateSIWEMessage getAddress prepare entropy now accountAddress statement chainId'
                   siweDomain' siweUri' = Inr m)
        \<and> (\<forall>error. prepare fields = Inl error \<longrightarrow>
               generateSIWEMessage getAddress prepare entropy now accountAddress statement chainId'
                   siweDomain' siweUri'
                 = Inl (SdkError \<lparr>code = Code SIWE_ERROR, message = err_message error,
                                   cause = Some error, errno = JUndefined,
                                   error_context = JObj [(''accountAddress'', JStr accountAddress),
                                                         (''statement'', JStr statement)]\<rparr>)))"
proof (rule conjI; intro allI impI)
  fix error
  assume "getAddress accountAddress = Inl error"
  then show "generateSIWEMessage getAddress prepare entropy now accountAddress statement chainId'
          siweDomain' siweUri'
        = Inl (SdkError \<lparr>code = Code SIWE_ERROR, message = err_message error,
                          cause = Some error, errno = JUndefined,
                          error_context = JObj [(''accountAddress'', JStr accountAddress),
                                                (''statement'', JStr statement)]\<rparr>)"
    by (simp add: generateSIWEMessage_def new_SafeRecoveryServiceSdkError_JStr Let_def)
next
  fix address fields
  assume a: "getAddress accountAddress = Inr address
        \<and> fields = \<lparr>siwe_version = ''1'', siwe_address = address, siwe_domain = siweDomain',
                     siwe_uri = siweUri', siwe_statement = statement,
                     siwe_chainId = js_Number chainId',
                     siwe_nonce = ''0x'' @ concat (map (\<lambda>i. hex2 (unat (entropy i))) [0 ..< 24]),
                     siwe_issuedAt = now\<rparr>"
  then have ga: "getAddress accountAddress = Inr address" by (rule conjunct1)
  have nonce: "hexlify (randomBytes entropy 24)
      = ''0x'' @ concat (map (\<lambda>i. hex2 (unat (entropy i))) [0 ..< 24])"
    by (simp add: hexlify_def randomBytes_def comp_def)
  from a have fields: "fields = \<lparr>siwe_version = ''1'', siwe_address = address,
      siwe_domain = siweDomain', siwe_uri = siweUri', siwe_statement = statement,
      siwe_chainId = js_Number chainId', siwe_nonce = hexlify (randomBytes entropy 24),
      siwe_issuedAt = now\<rparr>"
    unfolding nonce by (rule conjunct2)
  have len: "length (siwe_nonce fields) = 50"
    unfolding fields by (simp add: hexlify_length randomBytes_def)
  have chain: "siwe_chainId fields = Integral chainId'" if "\<bar>chainId'\<bar> < 2 ^ 53"
    unfolding fields using js_Number_safe[OF that] by simp
  have run: "generateSIWEMessage getAddress prepare entropy now accountAddress statement chainId'
      siweDomain' siweUri'
    = (case prepare fields of
         Inl error \<Rightarrow> Inl (SdkError \<lparr>code = Code SIWE_ERROR, message = err_message error,
                                   cause = Some error, errno = JUndefined,
                                   error_context = JObj [(''accountAddress'', JStr accountAddress),
                                                         (''statement'', JStr statement)]\<rparr>)
       | Inr m \<Rightarrow> Inr m)"
    unfolding generateSIWEMessage_def Let_def ga fields
    by (simp add: new_SafeRecoveryServiceSdkError_JStr split: sum.splits)
  show "length (siwe_nonce fields) = 50
        \<and> (\<bar>chainId'\<bar> < 2 ^ 53 \<longrightarrow> siwe_chainId fields = Integral chainId')
        \<and> (\<forall>m. prepare fields = Inr m \<longrightarrow>
               generateSIWEMessage getAddress prepare entropy now accountAddress statement chainId'
                   siweDomain' siweUri' = Inr m)
        \<and> (\<forall>error. prepare fields = Inl error \<longrightarrow>
               generateSIWEMessage getAddress prepare entropy now accountAddress statement chainId'
                   siweDomain' siweUri'
                 = Inl (SdkError \<lparr>code = Code SIWE_ERROR, message = err_message error,
                                   cause = Some error, errno = JUndefined,
                                   error_context = JObj [(''accountAddress'', JStr accountAddress),
                                                         (''statement'', JStr statement)]\<rparr>))"
    unfolding run using len chain by simp
qed

theorem generateSIWEMessage_result_witness:
  "raised_code (generateSIWEMessage checksum_address siwe_library (\<lambda>i. 7)
          ''2025-01-01T00:00:00.000Z'' ''not an address'' ''I request'' 1 ''example.org''
          ''service://safe-recovery-service'') = Some (Code SIWE_ERROR)
   \<and> generateSIWEMessage checksum_address siwe_library (\<lambda>i. 7)
          ''2025-01-01T00:00:00.000Z'' ''0x00000000000000000000000000000000000000aa''
          ''I request'' 1 ''example.org'' ''service://safe-recovery-service''
     = Inr (''example.org wants you to sign in with your Ethereum account:'' @ [CHR 0x0A]
            @ ''0x00000000000000000000000000000000000000aa'' @ [CHR 0x0A, CHR 0x0A]
            @ ''I request'' @ [CHR 0x0A, CHR 0x0A]
            @ ''URI: service://safe-recovery-service'' @ [CHR 0x0A]
            @ ''Version: 1'' @ [CHR 0x0A]
            @ ''Chain ID: 1'' @ [CHR 0x0A]
            @ ''Nonce: 0x070707070707070707070707070707070707070707070707'' @ [CHR 0x0A]
            @ ''Issued At: 2025-01-01T00:00:00.000Z'')
   \<and> js_Number 1 = Integral 1"
proof -
  let ?a = "''0x00000000000000000000000000000000000000aa''"
  let ?fields = "\<lparr>siwe_version = ''1'', siwe_address = ?a, siwe_domain = ''example.org'',
                     siwe_uri = ''service://safe-recovery-service'', siwe_statement = ''I request'',
                     siwe_chainId = js_Number 1,
                     siwe_nonce = ''0x'' @ concat (map (\<lambda>i. hex2 (unat ((\<lambda>i. 7 :: 8 word) i))) [0 ..< 24]),
                     siwe_issuedAt = ''2025-01-01T00:00:00.000Z''\<rparr>"
  have bad: "checksum_address ''not an address''
      = Inl \<lparr>err_name = ''TypeError'', err_message = ''invalid address''\<rparr>"
    by (simp add: checksum_address_def)
  have good: "checksum_address ?a = Inr ?a"
    by (simp add: checksum_address_def digit_value_def)
  have small: "\<bar>1 :: int\<bar> < 2 ^ 53" by simp
  note inst = generateSIWEMessage_result
         [of checksum_address ?a siwe_library "\<lambda>i. 7"
             "''2025-01-01T00:00:00.000Z''" "''I request''" 1 "''example.org''"
             "''service://safe-recovery-service''",
          THEN conjunct2, rule_format, OF conjI[OF good refl]]
  from inst[THEN conjunct2, THEN conjunct1, rule_format, OF small]
  have w3: "js_Number 1 = Integral 1" by simp
  have prepared: "siwe_library ?fields
     = Inr (''example.org wants you to sign in with your Ethereum account:'' @ [CHR 0x0A]
            @ ''0x00000000000000000000000000000000000000aa'' @ [CHR 0x0A, CHR 0x0A]
            @ ''I request'' @ [CHR 0x0A, CHR 0x0A]
            @ ''URI: service://safe-recovery-service'' @ [CHR 0x0A]
            @ ''Version: 1'' @ [CHR 0x0A]
            @ ''Chain ID: 1'' @ [CHR 0x0A]
            @ ''Nonce: 0x070707070707070707070707070707070707070707070707'' @ [CHR 0x0A]
            @ ''Issued At: 2025-01-01T00:00:00.000Z'')"
    by (simp add: siwe_library_def w3 int_toString_def dec_digits.simps hex2_def digit_char_def
          upt_conv_Cons)
  from generateSIWEMessage_result
         [of checksum_address "''not an address''" siwe_library "\<lambda>i. 7"
             "''2025-01-01T00:00:00.000Z''" "''I request''" 1 "''example.org''"
             "''service://safe-recovery-service''",
          THEN conjunct1, rule_format, OF bad]
  have w1: "raised_code (generateSIWEMessage checksum_address siwe_library (\<lambda>i. 7)
          ''2025-01-01T00:00:00.000Z'' ''not an address'' ''I request'' 1 ''example.org''
          ''service://safe-recovery-service'') = Some (Code SIWE_ERROR)"
    by (simp add: raised_code_def)
  from inst[THEN conjunct2, THEN conjunct2, THEN conjunct1, rule_format, OF prepared]
  have w2: "generateSIWEMessage checksum_address siwe_library (\<lambda>i. 7)
          ''2025-01-01T00:00:00.000Z'' ?a ''I request'' 1 ''example.org''
          ''service://safe-recovery-service''
     = Inr (''example.org wants you to sign in with your Ethereum account:'' @ [CHR 0x0A]
            @ ''0x00000000000000000000000000000000000000aa'' @ [CHR 0x0A, CHR 0x0A]
            @ ''I request'' @ [CHR 0x0A, CHR 0x0A]
            @ ''URI: service://safe-recovery-service'' @ [CHR 0x0A]
            @ ''Version: 1'' @ [CHR 0x0A]
            @ ''Chain ID: 1'' @ [CHR 0x0A]
            @ ''Nonce: 0x070707070707070707070707070707070707070707070707'' @ [CHR 0x0A]
            @ ''Issued At: 2025-01-01T00:00:00.000Z'')" .
  from w1 w2 w3 show ?thesis by simp
qed

section \<open>Failures of the collaborators\<close>

text \<open>
  A transport failure is wrapped and keeps its cause: when \<^verbatim>\<open>fetch\<close> or the parsing of the
  body throws, \<open>sendHttpRequest\<close> raises a \<open>SafeRecoveryServiceSdkError\<close> with code
  \<open>UNKNOWN_ERROR\<close>, the message of the thrown error, and that error as its cause.
\<close>

theorem sendHttpRequest_wraps_transport_failure:
  "\<forall>error w' params requestOptions.
     request_of rpcUrl body method headers = Inr (params, requestOptions)
     \<and> fetch w params requestOptions = (Inl error, w') \<longrightarrow>
     (\<exists>e. sendHttpRequest fetch rpcUrl body method headers w = (Inl (SdkError e), w')
        \<and> code e = Code UNKNOWN_ERROR \<and> message e = err_message error \<and> cause e = Some error)"
proof (intro allI impI)
  fix error w' params requestOptions
  assume a: "request_of rpcUrl body method headers = Inr (params, requestOptions)
     \<and> fetch w params requestOptions = (Inl error, w')"
  then have ro: "request_of rpcUrl body method headers = Inr (params, requestOptions)"
    by (rule conjunct1)
  from a have f: "fetch w params requestOptions = (Inl error, w')" by (rule conjunct2)
  show "\<exists>e. sendHttpRequest fetch rpcUrl body method headers w = (Inl (SdkError e), w')
        \<and> code e = Code UNKNOWN_ERROR \<and> message e = err_message error \<and> cause e = Some error"
    unfolding sendHttpRequest_def ro
    by (simp add: f new_SafeRecoveryServiceSdkError_JStr)
qed

theorem sendHttpRequest_wraps_transport_failure_witness:
  "raised_code (fst (sendHttpRequest scripted_fetch ''https://s/x'' [] post default_headers
                       ([], []))) = Some (Code UNKNOWN_ERROR)"
proof -
  let ?opts = "\<lparr>rq_method = ''POST'', rq_headers = default_headers,
                rq_body = JSON_stringify_hex (JObj []), rq_redirect = ''follow''\<rparr>"
  have ro: "request_of ''https://s/x'' [] post default_headers = Inr (''https://s/x'', ?opts)"
    by (simp add: request_of_def)
  have f: "scripted_fetch ([], []) ''https://s/x'' ?opts
      = (Inl \<lparr>err_name = ''TypeError'', err_message = ''fetch failed''\<rparr>,
         snd (scripted_fetch ([], []) ''https://s/x'' ?opts))"
    by (simp add: scripted_fetch_def)
  from sendHttpRequest_wraps_transport_failure
         [of "''https://s/x''" "[]" post default_headers scripted_fetch "([], [])",
          rule_format, OF conjI[OF ro f]]
  obtain e where "sendHttpRequest scripted_fetch ''https://s/x'' [] post default_headers ([], [])
        = (Inl (SdkError e), snd (scripted_fetch ([], []) ''https://s/x'' ?opts))"
      and "code e = Code UNKNOWN_ERROR"
    by blast
  then show ?thesis by (simp add: raised_code_def)
qed

text \<open>
  A failure of the ledger read is wrapped likewise, and the authority is not asked: the
  resolver raises \<open>UNKNOWN_ERROR\<close> with the message \<^verbatim>\<open>failed fetching nonce\<close> and the cause,
  in the world the ledger read left. And when the resolver does ask the authority, the
  nonce it asks for is never negative, so \<^verbatim>\<open>ethers.toQuantity\<close> accepts it: this is what the
  guard for nonce 0 is for.
\<close>

theorem resolver_ledger_failure_and_nonce_range:
  "(\<forall>error w1.
      nonceOf w (recoveryModuleAddress this) rpcNode accountAddress = (Inl error, w1) \<longrightarrow>
      (\<exists>e. getRecoveryRequestsForLatestNonce fetch nonceOf this rpcNode accountAddress status w
              = (Inl (SdkError e), w1)
         \<and> code e = Code UNKNOWN_ERROR \<and> message e = ''failed fetching nonce''
         \<and> cause e = Some error))
   \<and> (\<forall>n::nat. \<not> (status \<noteq> PENDING \<and> n = 0) \<longrightarrow>
        toQuantity (if status = PENDING then int n else int n - 1)
          = Inr (''0x'' @ hex_digits (if status = PENDING then n else n - 1)))"
proof (rule conjI; intro allI impI)
  fix error w1
  assume "nonceOf w (recoveryModuleAddress this) rpcNode accountAddress = (Inl error, w1)"
  then show "\<exists>e. getRecoveryRequestsForLatestNonce fetch nonceOf this rpcNode accountAddress status w
              = (Inl (SdkError e), w1)
         \<and> code e = Code UNKNOWN_ERROR \<and> message e = ''failed fetching nonce''
         \<and> cause e = Some error"
    by (simp add: getRecoveryRequestsForLatestNonce_def new_SafeRecoveryServiceSdkError_JStr)
next
  fix n :: nat
  assume a: "\<not> (status \<noteq> PENDING \<and> n = 0)"
  show "toQuantity (if status = PENDING then int n else int n - 1)
          = Inr (''0x'' @ hex_digits (if status = PENDING then n else n - 1))"
  proof (cases "status = PENDING")
    case True
    then show ?thesis by (simp add: toQuantity_def)
  next
    case False
    with a have "0 < n" by simp
    then have "nat (int n - 1) = n - 1" by simp
    with False \<open>0 < n\<close> show ?thesis by (simp add: toQuantity_def)
  qed
qed

theorem resolver_ledger_failure_and_nonce_range_witness:
  "raised_code (fst (getRecoveryRequestsForLatestNonce scripted_fetch
                       (\<lambda>w a r c. (Inl \<lparr>err_name = ''Error'', err_message = ''rpc down''\<rparr>, w))
                       guardian_service ''rpc'' ''0xA'' EXECUTED ([], [])))
     = Some (Code UNKNOWN_ERROR)
   \<and> toQuantity (int 3 - 1) = Inr (''0x'' @ hex_digits 2)"
proof -
  let ?ledger = "\<lambda>(w :: scripted_world) (a :: jsval) (r :: string) (c :: string).
                   (Inl \<lparr>err_name = ''Error'', err_message = ''rpc down''\<rparr> :: js_error + nat, w)"
  note inst = resolver_ledger_failure_and_nonce_range
      [of ?ledger "([], [])" guardian_service "''rpc''" "''0xA''" scripted_fetch EXECUTED]
  have l: "?ledger ([], []) (recoveryModuleAddress guardian_service) ''rpc'' ''0xA''
      = (Inl \<lparr>err_name = ''Error'', err_message = ''rpc down''\<rparr>, ([], []))"
    by simp
  from inst[THEN conjunct1, rule_format, OF l]
  obtain e where "getRecoveryRequestsForLatestNonce scripted_fetch ?ledger guardian_service
        ''rpc'' ''0xA'' EXECUTED ([], []) = (Inl (SdkError e), ([], []))"
      and "code e = Code UNKNOWN_ERROR"
    by blast
  then have w1: "raised_code (fst (getRecoveryRequestsForLatestNonce scripted_fetch ?ledger
      guardian_service ''rpc'' ''0xA'' EXECUTED ([], []))) = Some (Code UNKNOWN_ERROR)"
    by (simp add: raised_code_def)
  have "\<not> (EXECUTED \<noteq> PENDING \<and> (3::nat) = 0)" by simp
  from inst[THEN conjunct2, rule_format, OF this]
  have w2: "toQuantity (int 3 - 1) = Inr (''0x'' @ hex_digits 2)" by simp
  from w1 w2 show ?thesis by (rule conjI)
qed

end
